theory Spec2Isabelle
  imports Main
begin

section \<open>Faults\<close>

text \<open>
  The C code stops the process through \<open>RAPTOR_FATAL\<close> (print and abort).  Two places
  of \<open>raptor_guess_parser_name\<close> touch memory they must not: they are faults of the model
  too, so that no theorem speaks about what such an access yields.

  A C string is the list of its bytes before the terminating NUL, a NULL pointer is
  \<open>None\<close>.  Memory allocation is taken to succeed throughout: the paths after a failed
  \<open>RAPTOR_MALLOC\<close> or \<open>RAPTOR_CALLOC\<close> are not branches of the model.
\<close>

datatype fault =
    Fatal string
  | Out_of_bounds_write
  | Uninitialised_read

section \<open>The parser registry (raptor\_parse.c)\<close>

text \<open>
  \<open>recognise_syntax(factory, buffer, len, identifier, suffix, mime_type)\<close>: the buffer
  with its length is one byte string; a NULL pointer is \<open>None\<close>.
\<close>

type_synonym recognise_fn =
  "string option \<Rightarrow> string option \<Rightarrow> string option \<Rightarrow> string option \<Rightarrow> int"

record raptor_parser_factory =
  pf_name :: string
  pf_alias :: "string option"
  pf_label :: string
  pf_mime_type :: "string option"
  pf_uri_string :: "string option"
  pf_context_length :: nat
  pf_recognise_syntax :: "recognise_fn option"

text \<open>
  The global \<open>parsers\<close> is a singly linked list; the model is the list of its nodes from
  the head on.  \<open>raptor_parser_register_factory\<close> (lines 117-192): a zeroed factory gets
  the copied strings, the registration function \<open>factory\<close> fills in the rest, and the
  node becomes the new head (lines 188-189).
\<close>

definition raptor_parser_register_factory ::
  "raptor_parser_factory list \<Rightarrow> string \<Rightarrow> string \<Rightarrow> string option \<Rightarrow> string option \<Rightarrow>
   (raptor_parser_factory \<Rightarrow> raptor_parser_factory) \<Rightarrow>
   fault + (raptor_parser_factory \<times> raptor_parser_factory list)" where
  "raptor_parser_register_factory parsers nm lbl mime uri factory =
     (if list_ex (\<lambda>h. pf_name h = nm) parsers
      then Inl (Fatal ''parser already registered'')
      else
        let parser = factory
              \<lparr> pf_name = nm, pf_alias = None, pf_label = lbl, pf_mime_type = mime,
                pf_uri_string = uri, pf_context_length = 0, pf_recognise_syntax = None \<rparr>
        in Inr (parser, parser # parsers))"

text \<open>
  \<open>raptor_get_parser_factory\<close> (lines 224-250): a NULL name asks for the head of the
  list; otherwise the first node whose name or alias is the wanted name.
\<close>

definition raptor_get_parser_factory ::
  "raptor_parser_factory list \<Rightarrow> string option \<Rightarrow> raptor_parser_factory option" where
  "raptor_get_parser_factory parsers nm =
     (case nm of
        None \<Rightarrow> (case parsers of [] \<Rightarrow> None | factory # _ \<Rightarrow> Some factory)
      | Some n \<Rightarrow> find (\<lambda>factory. pf_name factory = n \<or> pf_alias factory = Some n) parsers)"

text \<open>
  \<open>raptor_syntaxes_enumerate\<close> (lines 265-292).  The four out-parameters are the four
  components of the result; \<open>None\<close> is the return value 1 (nothing stored).
\<close>

type_synonym syntax_info = "string \<times> string \<times> string option \<times> string option"

definition syntax_info_of :: "raptor_parser_factory \<Rightarrow> syntax_info" where
  "syntax_info_of factory =
     (pf_name factory, pf_label factory, pf_mime_type factory, pf_uri_string factory)"

fun syntaxes_enumerate_loop ::
  "nat \<Rightarrow> raptor_parser_factory list \<Rightarrow> nat \<Rightarrow> syntax_info option" where
  "syntaxes_enumerate_loop i [] counter = None"
| "syntaxes_enumerate_loop i (factory # rest) counter =
     (if i \<le> counter
      then (if i = counter then Some (syntax_info_of factory)
            else syntaxes_enumerate_loop (i + 1) rest counter)
      else None)"

definition raptor_syntaxes_enumerate ::
  "raptor_parser_factory list \<Rightarrow> nat \<Rightarrow> syntax_info option" where
  "raptor_syntaxes_enumerate parsers counter =
     (if parsers = [] then None else syntaxes_enumerate_loop 0 parsers counter)"

text \<open>
  A run of registrations, in program order, each on the list the one before left; the
  first fault ends the run, as \<open>abort\<close> ends the process.
\<close>

type_synonym registration =
  "string \<times> string \<times> string option \<times> string option \<times>
   (raptor_parser_factory \<Rightarrow> raptor_parser_factory)"

fun register_sequence ::
  "raptor_parser_factory list \<Rightarrow> registration list \<Rightarrow> fault + raptor_parser_factory list" where
  "register_sequence parsers [] = Inr parsers"
| "register_sequence parsers ((nm, lbl, mime, uri, factory) # rest) =
     (case raptor_parser_register_factory parsers nm lbl mime uri factory of
        Inl e \<Rightarrow> Inl e
      | Inr (_, parsers') \<Rightarrow> register_sequence parsers' rest)"

text \<open>The factory a registration builds.\<close>

definition registered_factory :: "registration \<Rightarrow> raptor_parser_factory" where
  "registered_factory r =
     (case r of (nm, lbl, mime, uri, factory) \<Rightarrow>
        factory \<lparr> pf_name = nm, pf_alias = None, pf_label = lbl, pf_mime_type = mime,
                  pf_uri_string = uri, pf_context_length = 0, pf_recognise_syntax = None \<rparr>)"

text \<open>Three registrations used as a concrete run.\<close>

definition example_registrations :: "registration list" where
  "example_registrations =
     [(''rdfxml'', ''RDF/XML'', Some ''application/rdf+xml'', None, (\<lambda>f. f)),
      (''ntriples'', ''N-Triples'', Some ''text/plain'', None, (\<lambda>f. f)),
      (''grddl'', ''GRDDL'', None, None, (\<lambda>f. f\<lparr>pf_context_length := 96\<rparr>))]"

section \<open>The GRDDL engine (raptor\_grddl.c)\<close>

unbundle bit_operations_syntax

text \<open>
  A \<open>raptor_uri\<close> is its string: \<open>raptor_uri_equals\<close> is equality of the strings, and a
  NULL pointer is \<open>None\<close>.  A \<open>raptor_sequence\<close> is a list: \<open>raptor_sequence_push\<close>
  appends at the back, \<open>raptor_sequence_unshift\<close> removes the front,
  \<open>raptor_sequence_join\<close> appends a whole sequence.
\<close>

type_synonym raptor_uri = string

datatype raptor_identifier_type =
    RAPTOR_IDENTIFIER_TYPE_UNKNOWN
  | RAPTOR_IDENTIFIER_TYPE_RESOURCE
  | RAPTOR_IDENTIFIER_TYPE_ANONYMOUS
  | RAPTOR_IDENTIFIER_TYPE_PREDICATE
  | RAPTOR_IDENTIFIER_TYPE_ORDINAL
  | RAPTOR_IDENTIFIER_TYPE_LITERAL
  | RAPTOR_IDENTIFIER_TYPE_XML_LITERAL

record raptor_statement =
  subject :: string
  subject_type :: raptor_identifier_type
  predicate :: string
  predicate_type :: raptor_identifier_type
  object :: string
  object_type :: raptor_identifier_type

text \<open>
  A statement handler is a function pointer and its user data a \<open>void*\<close>: both are
  names here.  What a call of a handler does is the user's business; the model records
  that the call was made, with which user data and which statement.
\<close>

type_synonym raptor_statement_handler = nat
type_synonym user_data = nat
type_synonym handler_call = "raptor_statement_handler \<times> user_data \<times> raptor_statement"

text \<open>
  The sequence of visited URIs is one object that several engines point to
  (\<open>raptor_grddl_parser_add_parent\<close>, line 229), and it is freed while engines still
  point to it or not at all, depending on the path.  So these sequences live in a store:
  an address is a number, \<open>raptor_new_sequence\<close> takes the next free one,
  \<open>raptor_free_sequence\<close> ends the life of an address, and reading or freeing a dead
  address is a fault.  The other sequences of an engine have one owner and are lists.
\<close>

datatype memory_fault = Null_dereference | Use_after_free

record grddl_heap =
  sequences :: "nat \<Rightarrow> raptor_uri list option"
  next_sequence :: nat

definition empty_heap :: grddl_heap where
  "empty_heap = \<lparr> sequences = (\<lambda>a. None), next_sequence = 0 \<rparr>"

definition raptor_new_sequence :: "grddl_heap \<Rightarrow> nat \<times> grddl_heap" where
  "raptor_new_sequence heap =
     (next_sequence heap,
      heap\<lparr> sequences := (sequences heap)(next_sequence heap := Some []),
            next_sequence := next_sequence heap + 1 \<rparr>)"

definition raptor_free_sequence :: "grddl_heap \<Rightarrow> nat \<Rightarrow> memory_fault + grddl_heap" where
  "raptor_free_sequence heap a =
     (case sequences heap a of
        None \<Rightarrow> Inl Use_after_free
      | Some seq \<Rightarrow> Inr (heap\<lparr> sequences := (sequences heap)(a := None) \<rparr>))"

text \<open>
  \<open>struct raptor_grddl_parser_context_s\<close> (lines 82-127), without the libxml and sax2
  handles; \<open>visited_uris\<close> is the address of the sequence.  The last two fields are not
  in the C struct: \<open>handler_calls\<close> is the sequence of calls made to the saved statement
  handler, \<open>transforms_run\<close> the sequence of URIs handed to
  \<open>raptor_grddl_run_grddl_transform_uri\<close>.
\<close>

record raptor_grddl_parser_context =
  root_ns_uri :: "raptor_uri option"
  doc_transform_uris :: "raptor_uri list"
  saved_user_data :: user_data
  saved_statement_handler :: "raptor_statement_handler option"
  namespace_transformation_uri :: raptor_uri
  profile_transformation_uri :: raptor_uri
  profile_uris :: "raptor_uri option list"
  visited_uris :: nat
  grddl_depth :: nat
  internal_parser_name :: "string option"
  handler_calls :: "handler_call list"
  transforms_run :: "raptor_uri list"

text \<open>
  \<open>raptor_grddl_parse_init\<close> (lines 133-173) on the zeroed context \<open>raptor_new_parser\<close>
  allocates: the state of a fresh engine, with a new sequence of visited URIs.
\<close>

definition raptor_grddl_parse_init ::
  "grddl_heap \<Rightarrow> raptor_grddl_parser_context \<times> grddl_heap" where
  "raptor_grddl_parse_init heap =
     (case raptor_new_sequence heap of
        (visited, heap') \<Rightarrow>
          (\<lparr> root_ns_uri = None, doc_transform_uris = [], saved_user_data = 0,
             saved_statement_handler = None,
             namespace_transformation_uri =
               ''http://www.w3.org/2003/g/data-view#namespaceTransformation'',
             profile_transformation_uri =
               ''http://www.w3.org/2003/g/data-view#profileTransformation'',
             profile_uris = [], visited_uris = visited, grddl_depth = 0,
             internal_parser_name = None,
             handler_calls = [], transforms_run = [] \<rparr>, heap'))"

subsection \<open>The relay filter\<close>

text \<open>
  The loop of \<open>raptor_grddl_relay_triples\<close> (lines 356-381) over the profile URIs that
  are left, at index \<open>i\<close> with the current \<open>predicate_uri\<close>.  The variable changes at
  \<open>i == 1\<close>, before the NULL test of the entry.
\<close>

fun relay_profiles_loop ::
  "nat \<Rightarrow> raptor_uri \<Rightarrow> raptor_uri option list \<Rightarrow> raptor_statement \<Rightarrow>
   raptor_grddl_parser_context \<Rightarrow> raptor_grddl_parser_context" where
  "relay_profiles_loop i predicate_uri [] statement g = g"
| "relay_profiles_loop i predicate_uri (profile_uri # rest) statement g =
     (let predicate_uri' = (if i = 1 then profile_transformation_uri g else predicate_uri) in
      case profile_uri of
        None \<Rightarrow> relay_profiles_loop (i + 1) predicate_uri' rest statement g
      | Some p \<Rightarrow>
          if subject statement = p \<and> predicate statement = predicate_uri'
          then relay_profiles_loop (i + 1) predicate_uri' rest statement
                 (g\<lparr>doc_transform_uris := doc_transform_uris g @ [object statement]\<rparr>)
          else relay_profiles_loop (i + 1) predicate_uri' rest statement g)"

text \<open>\<open>raptor_grddl_relay_triples\<close> (lines 329-389).\<close>

definition raptor_grddl_relay_triples ::
  "raptor_grddl_parser_context \<Rightarrow> raptor_statement \<Rightarrow> raptor_grddl_parser_context" where
  "raptor_grddl_relay_triples g statement =
     (let g1 =
        (if subject_type statement = RAPTOR_IDENTIFIER_TYPE_RESOURCE
            \<and> predicate_type statement = RAPTOR_IDENTIFIER_TYPE_RESOURCE
            \<and> object_type statement = RAPTOR_IDENTIFIER_TYPE_RESOURCE
         then relay_profiles_loop 0 (namespace_transformation_uri g) (profile_uris g) statement g
         else g)
      in case saved_statement_handler g1 of
           None \<Rightarrow> g1
         | Some handler \<Rightarrow>
             g1\<lparr>handler_calls := handler_calls g1 @ [(handler, saved_user_data g1, statement)]\<rparr>)"

text \<open>
  The inner parser calls its statement handler once per triple, in the order it finds
  them; with the relay installed (line 429) that is one call of the relay filter each.
\<close>

definition relay_statements ::
  "raptor_grddl_parser_context \<Rightarrow> raptor_statement list \<Rightarrow> raptor_grddl_parser_context" where
  "relay_statements g statements = foldl raptor_grddl_relay_triples g statements"

text \<open>
  What one resource triple adds to the transform queue, said per entry of the profile
  list: entry 0 against the namespace predicate, the entries after it against the
  profile predicate.
\<close>

definition relay_pushes :: "raptor_grddl_parser_context \<Rightarrow> raptor_statement \<Rightarrow> raptor_uri list" where
  "relay_pushes g st =
     (case profile_uris g of
        [] \<Rightarrow> []
      | root # heads \<Rightarrow>
          (if root = Some (subject st) \<and> predicate st = namespace_transformation_uri g
           then [object st] else []) @
          map (\<lambda>_. object st)
            (filter (\<lambda>entry. entry = Some (subject st) \<and>
                       predicate st = profile_transformation_uri g) heads))"

definition resource_triple :: "raptor_uri \<Rightarrow> raptor_uri \<Rightarrow> raptor_uri \<Rightarrow> raptor_statement" where
  "resource_triple s p ob =
     \<lparr> subject = s, subject_type = RAPTOR_IDENTIFIER_TYPE_RESOURCE,
       predicate = p, predicate_type = RAPTOR_IDENTIFIER_TYPE_RESOURCE,
       object = ob, object_type = RAPTOR_IDENTIFIER_TYPE_RESOURCE \<rparr>"

text \<open>
  An engine after discovery: the root namespace \<open>http://ex/ns\<close> at index 0, one head
  profile at index 1, a user handler saved, one transform queued.
\<close>

definition example_engine :: raptor_grddl_parser_context where
  "example_engine =
     (fst (raptor_grddl_parse_init empty_heap))
       \<lparr> root_ns_uri := Some ''http://ex/ns'',
         doc_transform_uris := [''http://ex/a.xsl''],
         saved_user_data := 7,
         saved_statement_handler := Some 1,
         profile_uris := [Some ''http://ex/ns'', Some ''http://ex/profile''] \<rparr>"

subsection \<open>Applying the queued transforms\<close>

text \<open>
  \<open>raptor_grddl_run_grddl_transform_uri\<close> (lines 645-685) fetches the stylesheet, applies
  it and feeds the output to the inner parser, whose triples come back through the relay
  filter.  Fetcher, XSLT engine and inner parser are outside this code: \<open>xslt\<close> gives, for
  a transform URI, the return code and the triples the inner parser emits.
\<close>

definition raptor_grddl_run_grddl_transform_uri ::
  "(raptor_uri \<Rightarrow> int \<times> raptor_statement list) \<Rightarrow> raptor_grddl_parser_context \<Rightarrow>
   raptor_uri \<Rightarrow> int \<times> raptor_grddl_parser_context" where
  "raptor_grddl_run_grddl_transform_uri xslt g xslt_uri =
     (case xslt xslt_uri of
        (ret, triples) \<Rightarrow>
          (ret, relay_statements (g\<lparr>transforms_run := transforms_run g @ [xslt_uri]\<rparr>) triples))"

text \<open>
  The loop of \<open>raptor_grddl_parse_chunk\<close> at lines 1053-1061:
  \<open>for(i=0; i < raptor_sequence_size(doc_transform_uris); i++)\<close> with an unshift in the
  body.  A transform can queue more than it removes, so the loop need not end: the
  result is \<open>None\<close> when it does not.
\<close>

partial_function (option) apply_transforms_loop ::
  "(raptor_uri \<Rightarrow> int \<times> raptor_statement list) \<Rightarrow> nat \<Rightarrow> int \<Rightarrow>
   raptor_grddl_parser_context \<Rightarrow> (int \<times> raptor_grddl_parser_context) option" where
  "apply_transforms_loop xslt i ret g =
     (if i < length (doc_transform_uris g)
      then
        (case doc_transform_uris g of
           [] \<Rightarrow> Some (ret, g)
         | uri # rest \<Rightarrow>
             (case raptor_grddl_run_grddl_transform_uri xslt
                     (g\<lparr>doc_transform_uris := rest\<rparr>) uri of
                (ret', g') \<Rightarrow>
                  if ret' \<noteq> 0 then Some (ret', g')
                  else apply_transforms_loop xslt (i + 1) ret' g'))
      else Some (ret, g))"

text \<open>A stylesheet collaborator under which every transform succeeds without output.\<close>

definition quiet_xslt :: "raptor_uri \<Rightarrow> int \<times> raptor_statement list" where
  "quiet_xslt xslt_uri = (0, [])"

subsection \<open>XPath matches\<close>

text \<open>
  The nodes an XPath evaluation returns, as \<open>raptor_grddl_run_xpath_match\<close> reads them:
  an attribute node with \<open>node->children->content\<close>, an element node with
  \<open>node->ns->href\<close> (\<open>None\<close> where the pointer chain ends in NULL), any other node with
  its libxml type number; each with the result of \<open>xmlNodeGetBase\<close>.
\<close>

datatype xml_node =
    XML_ATTRIBUTE_NODE "string option" "string option"
  | XML_ELEMENT_NODE "string option" "string option"
  | XML_OTHER_NODE nat "string option"

definition MATCH_IS_VALUE_LIST :: nat where "MATCH_IS_VALUE_LIST = 1"
definition MATCH_IS_PROFILE :: nat where "MATCH_IS_PROFILE = 2"

definition strchr :: "string \<Rightarrow> char \<Rightarrow> nat option" where
  "strchr s c = (if c \<in> set s then Some (length (takeWhile (\<lambda>x. x \<noteq> c) s)) else None)"

text \<open>
  The body of the token loop from line 824 on, for the token \<open>start\<close>:
  \<open>raptor_new_uri_relative_to_base\<close> is the parameter \<open>resolve\<close> (raptor\_uri.c is not
  part of these sources).  The string the profile test compares with is the one of
  line 828, which ends in an apostrophe.
\<close>

definition value_list_token ::
  "(raptor_uri option \<Rightarrow> string \<Rightarrow> raptor_uri) \<Rightarrow> raptor_uri option \<Rightarrow> nat \<Rightarrow> string \<Rightarrow>
   raptor_uri list \<Rightarrow> raptor_uri list" where
  "value_list_token resolve base_uri flags start seq =
     (let uri = resolve base_uri start in
      if flags AND MATCH_IS_PROFILE \<noteq> 0
         \<and> uri = ''http://www.w3.org/2003/g/data-view'' @ [CHR 0x27]
      then seq
      else seq @ [uri])"

text \<open>
  The token loop, lines 814-834: \<open>end\<close> is the next space from \<open>start\<close> on.  An empty
  token in front of a space is skipped; the last token is not tested for emptiness.
\<close>

function value_list_loop ::
  "(raptor_uri option \<Rightarrow> string \<Rightarrow> raptor_uri) \<Rightarrow> raptor_uri option \<Rightarrow> nat \<Rightarrow> string \<Rightarrow>
   raptor_uri list \<Rightarrow> raptor_uri list" where
  "value_list_loop resolve base_uri flags start seq =
     (case strchr start CHR '' '' of
        None \<Rightarrow> value_list_token resolve base_uri flags start seq
      | Some n \<Rightarrow>
          if n = 0 then value_list_loop resolve base_uri flags (drop 1 start) seq
          else value_list_loop resolve base_uri flags (drop (n + 1) start)
                 (value_list_token resolve base_uri flags (take n start) seq))"
  by pat_completeness auto
termination
  by (relation "measure (\<lambda>(resolve, base_uri, flags, start, seq). length start)")
     (auto simp: strchr_def split: if_splits intro!: diff_less dest: length_pos_if_in_set)

text \<open>
  The loop over the node set, lines 774-843, with the parser's base URI as fallback
  of \<open>xmlNodeGetBase\<close>.
\<close>

fun xpath_nodes_loop ::
  "(raptor_uri option \<Rightarrow> string \<Rightarrow> raptor_uri) \<Rightarrow> raptor_uri option \<Rightarrow> nat \<Rightarrow>
   xml_node list \<Rightarrow> raptor_uri list \<Rightarrow> memory_fault + raptor_uri list" where
  "xpath_nodes_loop resolve parser_base flags [] seq = Inr seq"
| "xpath_nodes_loop resolve parser_base flags (XML_OTHER_NODE t b # nodes) seq =
     xpath_nodes_loop resolve parser_base flags nodes seq"
| "xpath_nodes_loop resolve parser_base flags (node # nodes) seq =
     (let base_uri_string = (case node of XML_ATTRIBUTE_NODE c b \<Rightarrow> b | XML_ELEMENT_NODE h b \<Rightarrow> b
                              | XML_OTHER_NODE t b \<Rightarrow> b);
          uri_string = (case node of XML_ATTRIBUTE_NODE c b \<Rightarrow> c | XML_ELEMENT_NODE h b \<Rightarrow> h
                         | XML_OTHER_NODE t b \<Rightarrow> None);
          base_uri = (case base_uri_string of Some b \<Rightarrow> Some b | None \<Rightarrow> parser_base)
      in case uri_string of
           None \<Rightarrow> Inl Null_dereference
         | Some s \<Rightarrow>
             if flags AND MATCH_IS_VALUE_LIST \<noteq> 0
             then xpath_nodes_loop resolve parser_base flags nodes
                    (value_list_loop resolve base_uri flags s seq)
             else xpath_nodes_loop resolve parser_base flags nodes
                    (seq @ [resolve base_uri s]))"

text \<open>
  \<open>raptor_grddl_run_xpath_match\<close> (lines 735-850).  \<open>xmlXPathEvalExpression\<close> is outside
  this code: \<open>nodes\<close> is its node set, \<open>None\<close> when the evaluation fails.  The result
  \<open>None\<close> is the NULL sequence.
\<close>

definition raptor_grddl_run_xpath_match ::
  "(raptor_uri option \<Rightarrow> string \<Rightarrow> raptor_uri) \<Rightarrow> raptor_uri option \<Rightarrow>
   xml_node list option \<Rightarrow> nat \<Rightarrow> memory_fault + raptor_uri list option" where
  "raptor_grddl_run_xpath_match resolve parser_base nodes flags =
     (case nodes of
        None \<Rightarrow> Inr None
      | Some [] \<Rightarrow> Inr None
      | Some ns \<Rightarrow>
          (case xpath_nodes_loop resolve parser_base flags ns [] of
             Inl e \<Rightarrow> Inl e
           | Inr seq \<Rightarrow> Inr (Some seq)))"

text \<open>
  A resolver for absolute references: the reference itself, whatever the base.  The
  sentinel of the data-view profile as the specification writes it.
\<close>

definition absolute_reference :: "raptor_uri option \<Rightarrow> string \<Rightarrow> raptor_uri" where
  "absolute_reference base_uri reference = reference"

definition data_view_profile :: raptor_uri where
  "data_view_profile = ''http://www.w3.org/2003/g/data-view''"

text \<open>
  A fresh engine with two transforms queued by discovery, and the node the head-profile
  XPath returns for \<open><head profile="http://www.w3.org/2003/g/data-view http://ex/p">\<close>.
\<close>

definition two_transforms_engine :: raptor_grddl_parser_context where
  "two_transforms_engine =
     (fst (raptor_grddl_parse_init empty_heap))
       \<lparr>doc_transform_uris := [''http://ex/a.xsl'', ''http://ex/b.xsl'']\<rparr>"

definition head_profile_nodes :: "xml_node list" where
  "head_profile_nodes =
     [XML_ATTRIBUTE_NODE (Some ''http://www.w3.org/2003/g/data-view http://ex/p'') None]"

section \<open>Guessing a parser (raptor\_parse.c)\<close>

definition MAX_PARSERS :: nat where "MAX_PARSERS = 10"

record syntax_score =
  ss_score :: int
  ss_factory :: raptor_parser_factory

text \<open>
  A C \<open>int\<close> has 32 bits; \<open>int32_wrap\<close> is the value a two's complement machine leaves
  after an \<open>int\<close> operation whose exact result is \<open>x\<close>.  \<open>compare_syntax_score\<close>
  (lines 1517-1520) subtracts two scores as \<open>int\<close>.
\<close>

definition int32_wrap :: "int \<Rightarrow> int" where
  "int32_wrap x = (x + 2 ^ 31) mod 2 ^ 32 - 2 ^ 31"

definition compare_syntax_score :: "syntax_score \<Rightarrow> syntax_score \<Rightarrow> int" where
  "compare_syntax_score a b = int32_wrap (ss_score b - ss_score a)"

text \<open>
  Lines 1551-1565: the suffix is what follows the last dot of the identifier, with
  \<open>A\<close> to \<open>Z\<close> turned to lower case (\<open>isupper\<close> and \<open>tolower\<close> of the C locale).
\<close>

definition strrchr :: "string \<Rightarrow> char \<Rightarrow> nat option" where
  "strrchr s c =
     (if c \<in> set s then Some (length s - 1 - length (takeWhile (\<lambda>x. x \<noteq> c) (rev s))) else None)"

definition tolower_c :: "char \<Rightarrow> char" where
  "tolower_c c =
     (if (65::nat) \<le> of_char c \<and> of_char c \<le> (90::nat) then char_of (of_char c + (32::nat)) else c)"

definition guess_suffix :: "string option \<Rightarrow> string option" where
  "guess_suffix identifier =
     (case identifier of
        None \<Rightarrow> None
      | Some ident \<Rightarrow>
          (case strrchr ident CHR ''.'' of
             None \<Rightarrow> None
           | Some p \<Rightarrow> Some (map tolower_c (drop (p + 1) ident))))"

text \<open>The two exact tests of lines 1570-1579.\<close>

definition mime_type_matches :: "string option \<Rightarrow> raptor_parser_factory \<Rightarrow> bool" where
  "mime_type_matches mime factory = (mime \<noteq> None \<and> pf_mime_type factory = mime)"

definition uri_string_matches :: "raptor_uri option \<Rightarrow> raptor_parser_factory \<Rightarrow> bool" where
  "uri_string_matches uri factory = (uri \<noteq> None \<and> pf_uri_string factory = uri)"

text \<open>
  The score line 1590 stores for a factory: \<open>-1\<close> without a \<open>recognise_syntax\<close>
  operation, else its result, and never more than 10.
\<close>

definition recorded_score ::
  "string option \<Rightarrow> string option \<Rightarrow> string option \<Rightarrow> string option \<Rightarrow>
   raptor_parser_factory \<Rightarrow> int" where
  "recorded_score buffer identifier suffix mime factory =
     (let score = (case pf_recognise_syntax factory of
                     None \<Rightarrow> - 1
                   | Some recognise \<Rightarrow> recognise buffer identifier suffix mime)
      in if score < 10 then score else 10)"

text \<open>
  The loop of lines 1567-1594 from index \<open>i\<close> on, \<open>scores\<close> being the entries
  \<open>scores[0..i-1]\<close> written so far.  The result is the factory the loop left at (\<open>None\<close>
  when it ran off the list) and the scores.  The array has \<open>MAX_PARSERS\<close> entries and
  the guard of line 1586 is \<open>i > MAX_PARSERS\<close>: at \<open>i = MAX_PARSERS\<close> the store of
  line 1590 is outside the array.
\<close>

fun guess_loop ::
  "nat \<Rightarrow> raptor_parser_factory list \<Rightarrow> raptor_uri option \<Rightarrow> string option \<Rightarrow>
   string option \<Rightarrow> string option \<Rightarrow> string option \<Rightarrow> syntax_score list \<Rightarrow>
   fault + (raptor_parser_factory option \<times> syntax_score list)" where
  "guess_loop i [] uri mime buffer identifier suffix scores = Inr (None, scores)"
| "guess_loop i (factory # rest) uri mime buffer identifier suffix scores =
     (if mime_type_matches mime factory then Inr (Some factory, scores)
      else if uri_string_matches uri factory then Inr (Some factory, scores)
      else if i > MAX_PARSERS
        then Inl (Fatal ''Number of parsers greater than static buffer size'')
      else if i \<ge> MAX_PARSERS then Inl Out_of_bounds_write
      else guess_loop (i + 1) rest uri mime buffer identifier suffix
             (scores @ [\<lparr> ss_score = recorded_score buffer identifier suffix mime factory,
                          ss_factory = factory \<rparr>]))"

text \<open>
  \<open>raptor_guess_parser_name\<close> (lines 1539-1607).  \<open>qsort\<close> is the C library's: the
  parameter \<open>qsort\<close> takes the comparison function and the array.  With no factory
  registered nothing was stored in \<open>scores[0]\<close> when line 1599 reads it.
\<close>

definition raptor_guess_parser_name ::
  "((syntax_score \<Rightarrow> syntax_score \<Rightarrow> int) \<Rightarrow> syntax_score list \<Rightarrow> syntax_score list) \<Rightarrow>
   raptor_parser_factory list \<Rightarrow> raptor_uri option \<Rightarrow> string option \<Rightarrow>
   string option \<Rightarrow> string option \<Rightarrow> fault + string option" where
  "raptor_guess_parser_name qsort parsers uri mime buffer identifier =
     (case guess_loop 0 parsers uri mime buffer identifier (guess_suffix identifier) [] of
        Inl e \<Rightarrow> Inl e
      | Inr (Some factory, scores) \<Rightarrow> Inr (Some (pf_name factory))
      | Inr (None, scores) \<Rightarrow>
          (case qsort compare_syntax_score scores of
             [] \<Rightarrow> Inl Uninitialised_read
           | first # _ \<Rightarrow>
               if ss_score first \<ge> 0 then Inr (Some (pf_name (ss_factory first)))
               else Inr None))"

text \<open>
  What C promises of \<open>qsort\<close> on this array: the same elements, each one ordered
  before the ones after it by the comparison function.
\<close>

definition qsort_sorts ::
  "(('a \<Rightarrow> 'a \<Rightarrow> int) \<Rightarrow> 'a list \<Rightarrow> 'a list) \<Rightarrow> ('a \<Rightarrow> 'a \<Rightarrow> int) \<Rightarrow> 'a list \<Rightarrow> bool" where
  "qsort_sorts qsort cmp xs =
     (set (qsort cmp xs) = set xs \<and> sorted_wrt (\<lambda>a b. cmp a b \<le> 0) (qsort cmp xs))"

text \<open>One sorting function that keeps the promise: insertion sort.\<close>

fun insert_by :: "('a \<Rightarrow> 'a \<Rightarrow> int) \<Rightarrow> 'a \<Rightarrow> 'a list \<Rightarrow> 'a list" where
  "insert_by cmp x [] = [x]"
| "insert_by cmp x (y # ys) = (if cmp x y \<le> 0 then x # y # ys else y # insert_by cmp x ys)"

definition insertion_qsort :: "('a \<Rightarrow> 'a \<Rightarrow> int) \<Rightarrow> 'a list \<Rightarrow> 'a list" where
  "insertion_qsort cmp xs = foldr (insert_by cmp) xs []"

text \<open>
  Two registries for concrete runs.  In the first, the head of the list declares a
  URI and the second factory a MIME type.  In the second, no factory declares either
  and the recognisers answer with fixed scores.
\<close>

definition uri_then_mime_parsers :: "raptor_parser_factory list" where
  "uri_then_mime_parsers =
     [\<lparr> pf_name = ''by-uri'', pf_alias = None, pf_label = ''first'', pf_mime_type = None,
        pf_uri_string = Some ''http://ex/syntax'', pf_context_length = 0,
        pf_recognise_syntax = None \<rparr>,
      \<lparr> pf_name = ''by-mime'', pf_alias = None, pf_label = ''second'',
        pf_mime_type = Some ''text/x-ex'', pf_uri_string = None, pf_context_length = 0,
        pf_recognise_syntax = None \<rparr>]"

definition scoring_parsers :: "raptor_parser_factory list" where
  "scoring_parsers =
     [\<lparr> pf_name = ''low'', pf_alias = None, pf_label = ''low'', pf_mime_type = None,
        pf_uri_string = None, pf_context_length = 0,
        pf_recognise_syntax = Some (\<lambda>buffer identifier suffix mime. 3) \<rparr>,
      \<lparr> pf_name = ''high'', pf_alias = None, pf_label = ''high'', pf_mime_type = None,
        pf_uri_string = None, pf_context_length = 0,
        pf_recognise_syntax = Some (\<lambda>buffer identifier suffix mime. 12) \<rparr>,
      \<lparr> pf_name = ''none'', pf_alias = None, pf_label = ''none'', pf_mime_type = None,
        pf_uri_string = None, pf_context_length = 0,
        pf_recognise_syntax = None \<rparr>]"

section \<open>Qualified names (raptor\_qname.c)\<close>

record raptor_namespace =
  ns_prefix :: string
  ns_uri :: "raptor_uri option"
  ns_depth :: nat

text \<open>
  Modelled from the spec: \<open>raptor_namespaces_find_namespace\<close> of raptor\_namespace.c,
  which is not among the sources.  The namespace stack is an ordered sequence of
  namespaces with find by prefix, the most recent declaration winning: the list has
  the most recent namespace first.
\<close>

definition raptor_namespaces_find_namespace ::
  "raptor_namespace list \<Rightarrow> string \<Rightarrow> raptor_namespace option" where
  "raptor_namespaces_find_namespace nstack prefix = find (\<lambda>ns. ns_prefix ns = prefix) nstack"

text \<open>
  Modelled from the spec: \<open>raptor_namespaces_get_default_namespace\<close> of
  raptor\_namespace.c.  The default namespace is the one with the empty prefix.
\<close>

definition raptor_namespaces_get_default_namespace ::
  "raptor_namespace list \<Rightarrow> raptor_namespace option" where
  "raptor_namespaces_get_default_namespace nstack = raptor_namespaces_find_namespace nstack []"

text \<open>
  Modelled from the spec: \<open>raptor_new_uri_from_uri_local_name\<close> of raptor\_uri.c.  The
  expanded URI is the namespace URI followed by the local name.
\<close>

definition raptor_new_uri_from_uri_local_name :: "raptor_uri \<Rightarrow> string \<Rightarrow> raptor_uri" where
  "raptor_new_uri_from_uri_local_name uri local_name = uri @ local_name"

record raptor_qname =
  qn_nspace :: "raptor_namespace option"
  qn_local_name :: string
  qn_local_name_length :: nat
  qn_value :: "string option"
  qn_value_length :: nat
  qn_uri :: "raptor_uri option"

text \<open>
  Lines 204-210 of \<open>raptor_new_qname\<close>: the URI is made only for a qname with a
  namespace and a local name of non-zero length, from a namespace that has a URI.
\<close>

definition qname_expanded_uri :: "raptor_namespace option \<Rightarrow> string \<Rightarrow> raptor_uri option" where
  "qname_expanded_uri nspace new_name =
     (case nspace of
        None \<Rightarrow> None
      | Some ns \<Rightarrow>
          if length new_name \<noteq> 0
          then (case ns_uri ns of
                  None \<Rightarrow> None
                | Some uri \<Rightarrow> Some (raptor_new_uri_from_uri_local_name uri new_name))
          else None)"

text \<open>
  \<open>raptor_new_qname\<close> (lines 94-214).  The result is the qname together with the
  messages given to \<open>raptor_log_error_formatted\<close>.  The scan of lines 132-133 stops at
  the first colon.
\<close>

definition raptor_new_qname ::
  "raptor_namespace list \<Rightarrow> string \<Rightarrow> string option \<Rightarrow> raptor_qname \<times> string list" where
  "raptor_new_qname nstack nm val =
     (let value_length = (case val of None \<Rightarrow> 0 | Some v \<Rightarrow> length v) in
      case strchr nm CHR '':'' of
        None \<Rightarrow>
          (let nspace = (case val of
                           None \<Rightarrow> raptor_namespaces_get_default_namespace nstack
                         | Some _ \<Rightarrow> None)
           in (\<lparr> qn_nspace = nspace, qn_local_name = nm, qn_local_name_length = length nm,
                  qn_value = val, qn_value_length = value_length,
                  qn_uri = qname_expanded_uri nspace nm \<rparr>, []))
      | Some prefix_length \<Rightarrow>
          (let new_name = drop (prefix_length + 1) nm;
               nspace = raptor_namespaces_find_namespace nstack (take prefix_length nm)
           in (\<lparr> qn_nspace = nspace, qn_local_name = new_name,
                  qn_local_name_length = length new_name,
                  qn_value = val, qn_value_length = value_length,
                  qn_uri = qname_expanded_uri nspace new_name \<rparr>,
               (case nspace of
                  None \<Rightarrow> [''The namespace prefix in '' @ [CHR 0x22] @ nm @ [CHR 0x22] @
                            '' was not declared.'']
                | Some _ \<Rightarrow> []))))"

text \<open>A namespace stack with the prefix \<open>p\<close> and a default namespace.\<close>

definition example_nstack :: "raptor_namespace list" where
  "example_nstack =
     [\<lparr> ns_prefix = ''p'', ns_uri = Some ''http://ex/ns#'', ns_depth = 1 \<rparr>,
      \<lparr> ns_prefix = [], ns_uri = Some ''http://ex/default#'', ns_depth = 0 \<rparr>]"

section \<open>The prefixed-name check (raptor\_qname.c)\<close>

text \<open>
  The Unicode services the check calls are in raptor\_unicode.c, which is not among
  the sources; they are the fields of a parameter.  \<open>utf8_string_get_char\<close> stands for
  \<open>raptor_unicode_utf8_string_get_char(p, length, &unichar)\<close>: given the bytes from
  \<open>p\<close> on, the returned length and the code point stored.
\<close>

record raptor_unicode =
  utf8_string_get_char :: "string \<Rightarrow> int \<times> nat"
  max_codepoint :: nat
  is_xml11_namestartchar :: "nat \<Rightarrow> bool"
  is_xml11_namechar :: "nat \<Rightarrow> bool"

definition RAPTOR_PREFIXED_NAME_CHECK_VARNAME :: int where
  "RAPTOR_PREFIXED_NAME_CHECK_VARNAME = 0"
definition RAPTOR_PREFIXED_NAME_CHECK_QNAME_PREFIX :: int where
  "RAPTOR_PREFIXED_NAME_CHECK_QNAME_PREFIX = 1"
definition RAPTOR_PREFIXED_NAME_CHECK_QNAME_LOCAL :: int where
  "RAPTOR_PREFIXED_NAME_CHECK_QNAME_LOCAL = 2"
definition RAPTOR_PREFIXED_NAME_CHECK_BLANK :: int where
  "RAPTOR_PREFIXED_NAME_CHECK_BLANK = 3"

definition ALLOW_09_FIRST :: nat where "ALLOW_09_FIRST = 1"
definition ALLOW_MINUS_REST :: nat where "ALLOW_MINUS_REST = 2"
definition ALLOW_DOT_REST :: nat where "ALLOW_DOT_REST = 4"
definition ALLOW_UL_FIRST :: nat where "ALLOW_UL_FIRST = 8"
definition ALLOW_COLON :: nat where "ALLOW_COLON = 16"
definition ALLOW_HEX :: nat where "ALLOW_HEX = 32"
definition ALLOW_EXTRA_UNICODE :: nat where "ALLOW_EXTRA_UNICODE = 64"
definition ALLOW_BS_ESCAPE :: nat where "ALLOW_BS_ESCAPE = 128"

text \<open>Lines 724-747: the flags of a check type, \<open>None\<close> for the \<open>return -1\<close>.\<close>

definition check_bits_of :: "int \<Rightarrow> nat option" where
  "check_bits_of check_type =
     (if check_type = RAPTOR_PREFIXED_NAME_CHECK_VARNAME
      then Some (ALLOW_UL_FIRST OR ALLOW_09_FIRST OR ALLOW_EXTRA_UNICODE)
      else if check_type = RAPTOR_PREFIXED_NAME_CHECK_QNAME_PREFIX
      then Some (ALLOW_DOT_REST OR ALLOW_MINUS_REST OR ALLOW_HEX OR ALLOW_EXTRA_UNICODE)
      else if check_type = RAPTOR_PREFIXED_NAME_CHECK_QNAME_LOCAL
      then Some (ALLOW_09_FIRST OR ALLOW_DOT_REST OR ALLOW_MINUS_REST OR ALLOW_HEX OR
                 ALLOW_COLON OR ALLOW_EXTRA_UNICODE OR ALLOW_BS_ESCAPE)
      else if check_type = RAPTOR_PREFIXED_NAME_CHECK_BLANK
      then Some (ALLOW_09_FIRST OR ALLOW_DOT_REST OR ALLOW_MINUS_REST OR ALLOW_EXTRA_UNICODE)
      else None)"

text \<open>The code point of an ASCII character constant.\<close>

definition uc :: "char \<Rightarrow> nat" where
  "uc c = of_char c"

text \<open>The characters a backslash may be followed by, lines 776-782.\<close>

definition escapable :: "nat \<Rightarrow> bool" where
  "escapable unichar =
     (unichar = uc CHR ''_'' \<or> unichar = uc CHR ''~'' \<or> unichar = uc CHR ''.'' \<or>
      unichar = uc CHR ''-'' \<or> unichar = uc CHR ''!'' \<or> unichar = uc CHR ''$'' \<or>
      unichar = uc CHR ''&'' \<or> unichar = uc (CHR 0x27) \<or> unichar = uc CHR ''('' \<or>
      unichar = uc CHR '')'' \<or> unichar = uc CHR ''*'' \<or> unichar = uc CHR ''+'' \<or>
      unichar = uc CHR '','' \<or> unichar = uc CHR '';'' \<or> unichar = uc CHR ''='' \<or>
      unichar = uc CHR ''/'' \<or> unichar = uc CHR ''?'' \<or> unichar = uc CHR ''#'' \<or>
      unichar = uc CHR ''@'' \<or> unichar = uc CHR ''%'')"

text \<open>
  The body of the character loop from line 771 to line 853, for the code point
  \<open>unichar\<close> at position \<open>pos\<close>: whether the loop goes on (a \<open>continue\<close>, or the end of
  the body) rather than leaving through \<open>goto done\<close>, and the value \<open>escaping\<close> has
  then.  No test of the body reads \<open>ALLOW_BS_ESCAPE\<close>.
\<close>

definition name_check_char ::
  "raptor_unicode \<Rightarrow> nat \<Rightarrow> nat \<Rightarrow> nat \<Rightarrow> bool \<Rightarrow> bool \<times> bool" where
  "name_check_char U check_bits pos unichar escaping =
     (if escaping then (escapable unichar, False)
      else if unichar = uc (CHR 0x5C) then (True, True)
      else if unichar = uc CHR '':'' then (check_bits AND ALLOW_COLON \<noteq> 0, False)
      else if unichar = uc CHR ''%'' then (check_bits AND ALLOW_HEX \<noteq> 0, False)
      else if pos = 0 then
        (if uc CHR ''0'' \<le> unichar \<and> unichar \<le> uc CHR ''9''
         then (check_bits AND ALLOW_09_FIRST \<noteq> 0, False)
         else if unichar = uc CHR ''_'' then (check_bits AND ALLOW_UL_FIRST \<noteq> 0, False)
         else (is_xml11_namestartchar U unichar, False))
      else
        (if unichar = 0x00B7 \<or> (0x0300 \<le> unichar \<and> unichar \<le> 0x036F)
              \<or> (0x203F \<le> unichar \<and> unichar \<le> 0x2040)
         then (check_bits AND ALLOW_EXTRA_UNICODE \<noteq> 0, False)
         else if unichar = uc CHR ''.'' then (check_bits AND ALLOW_DOT_REST \<noteq> 0, False)
         else if unichar = uc CHR ''-'' then (check_bits AND ALLOW_MINUS_REST \<noteq> 0, False)
         else (is_xml11_namechar U unichar, False)))"

text \<open>
  The loop of lines 760-854 with what follows it (lines 856-867): \<open>p\<close> is the rest of
  the string, \<open>unichar\<close> the code point decoded last.  A decoder that returns the length
  0 leaves \<open>p\<close> where it is, and the C loop may then go on for ever: the result is
  \<open>None\<close> when the function does not return.
\<close>

partial_function (option) prefixed_name_check_loop ::
  "raptor_unicode \<Rightarrow> nat \<Rightarrow> nat \<Rightarrow> string \<Rightarrow> nat \<Rightarrow> bool \<Rightarrow> int option" where
  "prefixed_name_check_loop U check_bits pos p unichar escaping =
     (if length p > 0
      then
        (let r = utf8_string_get_char U p; unichar_len = fst r in
         if unichar_len < 0 \<or> nat unichar_len > length p then Some 0
         else if snd r > max_codepoint U then Some 0
         else if fst (name_check_char U check_bits pos (snd r) escaping)
         then prefixed_name_check_loop U check_bits (pos + 1) (drop (nat unichar_len) p) (snd r)
                (snd (name_check_char U check_bits pos (snd r) escaping))
         else Some 0)
      else Some (if unichar = uc CHR ''.'' then 0 else 1))"

text \<open>\<open>raptor_prefixed_name_check\<close> (lines 712-867).\<close>

definition raptor_prefixed_name_check :: "raptor_unicode \<Rightarrow> string \<Rightarrow> int \<Rightarrow> int option" where
  "raptor_prefixed_name_check U string check_type =
     (case check_bits_of check_type of
        None \<Rightarrow> Some (- 1)
      | Some check_bits \<Rightarrow>
          if length string = 0 then Some (- 1)
          else prefixed_name_check_loop U check_bits 0 string 0 False)"

text \<open>
  The code points of a string as the decoder reads them one after the other, \<open>None\<close>
  when it fails on the way (or reports a length that is not positive or passes the end
  of the string).  The final code point of a string is the last of these.
\<close>

function string_codepoints :: "raptor_unicode \<Rightarrow> string \<Rightarrow> nat list option" where
  "string_codepoints U p =
     (if p = [] then Some []
      else if fst (utf8_string_get_char U p) \<le> 0
            \<or> nat (fst (utf8_string_get_char U p)) > length p then None
      else map_option ((#) (snd (utf8_string_get_char U p)))
             (string_codepoints U (drop (nat (fst (utf8_string_get_char U p))) p)))"
  by pat_completeness auto
termination
  by (relation "measure (\<lambda>(U, p). length p)") auto

declare string_codepoints.simps [simp del]

text \<open>
  Unicode services restricted to ASCII, for concrete runs: a byte below 128 is one code
  point, any other byte a decoding failure; the name classes are the ASCII part of the
  XML 1.1 \<open>NameStartChar\<close> and \<open>NameChar\<close>.
\<close>

definition ascii_unicode :: raptor_unicode where
  "ascii_unicode =
     \<lparr> utf8_string_get_char =
         (\<lambda>p. case p of [] \<Rightarrow> (- 1, 0)
               | c # _ \<Rightarrow> if (of_char c :: nat) < 128 then (1, of_char c) else (- 1, 0)),
       max_codepoint = 0x10FFFF,
       is_xml11_namestartchar =
         (\<lambda>u. (65 \<le> u \<and> u \<le> 90) \<or> (97 \<le> u \<and> u \<le> 122) \<or> u = 95 \<or> u = 58),
       is_xml11_namechar =
         (\<lambda>u. (65 \<le> u \<and> u \<le> 90) \<or> (97 \<le> u \<and> u \<le> 122) \<or> u = 95 \<or> u = 58
               \<or> (48 \<le> u \<and> u \<le> 57) \<or> u = 45 \<or> u = 46) \<rparr>"

subsection \<open>The prefixed-name check over code points, and as the specification words it\<close>






section \<open>The GRDDL engine: the terminal chunk and its recursion\<close>

text \<open>
  What the engine reads of a parsed document: the namespace of the root element
  (\<open>xmlDocGetRootElement(doc)->ns->href\<close>) and, for the text of an XPath expression,
  the node set \<open>xmlXPathEvalExpression\<close> returns (\<open>None\<close> when it returns NULL).  A
  push parser context holds the document, or none when the bytes gave no DOM.
\<close>

record grddl_document =
  doc_root_ns :: "string option"
  doc_xpath :: "string \<Rightarrow> xml_node list option"

datatype xml_parser_ctxt = Xml_parser_ctxt (myDoc: "grddl_document option")

text \<open>
  A \<open>raptor_parser\<close> whose factory is the GRDDL one: of the handle the base URI, the
  \<open>failed\<close> flag, the user data and the statement handler; of the context, \<open>ctxt\<close> and
  \<open>internal_parser\<close> stand beside the record of the other fields.  The inner parser is
  NULL, a GRDDL parser, or the parser of another syntax, of which the model keeps the
  name.  Only its owner points to an inner parser.
\<close>

datatype raptor_parser = Raptor_parser
  (rp_base_uri: "raptor_uri option")
  (rp_failed: bool)
  (rp_user_data: user_data)
  (rp_statement_handler: "raptor_statement_handler option")
  (rp_ctxt: "xml_parser_ctxt option")
  (rp_context: raptor_grddl_parser_context)
  (rp_internal_parser: internal_parser)
and internal_parser =
    No_parser
  | Grddl_parser raptor_parser
  | Syntax_parser string

type_synonym grddl_result = "(memory_fault + int \<times> raptor_parser \<times> grddl_heap) option"

text \<open>Assignments to one field of a parser.\<close>

definition set_base_uri :: "raptor_uri option \<Rightarrow> raptor_parser \<Rightarrow> raptor_parser" where
  "set_base_uri b p =
     Raptor_parser b (rp_failed p) (rp_user_data p) (rp_statement_handler p) (rp_ctxt p)
       (rp_context p) (rp_internal_parser p)"

definition set_statement_handler ::
  "user_data \<Rightarrow> raptor_statement_handler option \<Rightarrow> raptor_parser \<Rightarrow> raptor_parser" where
  "set_statement_handler u h p =
     Raptor_parser (rp_base_uri p) (rp_failed p) u h (rp_ctxt p) (rp_context p)
       (rp_internal_parser p)"

definition set_ctxt :: "xml_parser_ctxt option \<Rightarrow> raptor_parser \<Rightarrow> raptor_parser" where
  "set_ctxt c p =
     Raptor_parser (rp_base_uri p) (rp_failed p) (rp_user_data p) (rp_statement_handler p) c
       (rp_context p) (rp_internal_parser p)"

definition map_context ::
  "(raptor_grddl_parser_context \<Rightarrow> raptor_grddl_parser_context) \<Rightarrow> raptor_parser \<Rightarrow> raptor_parser" where
  "map_context f p =
     Raptor_parser (rp_base_uri p) (rp_failed p) (rp_user_data p) (rp_statement_handler p)
       (rp_ctxt p) (f (rp_context p)) (rp_internal_parser p)"

definition set_internal_parser :: "internal_parser \<Rightarrow> raptor_parser \<Rightarrow> raptor_parser" where
  "set_internal_parser i p =
     Raptor_parser (rp_base_uri p) (rp_failed p) (rp_user_data p) (rp_statement_handler p)
       (rp_ctxt p) (rp_context p) i"

text \<open>
  Two pointers that are stored as handler and user data: the address of the function
  \<open>raptor_grddl_relay_triples\<close>, and the address of an engine, for which the model writes
  the engine's depth (the engines at work at one time differ in depth).
\<close>

definition relay_triples_handler :: raptor_statement_handler where
  "relay_triples_handler = 0"

definition parser_pointer :: "raptor_parser \<Rightarrow> user_data" where
  "parser_pointer p = grddl_depth (rp_context p)"

text \<open>
  \<open>raptor_new_parser(name)\<close> (raptor\_parse.c, lines 335-372) for the name of a registered
  syntax: the zeroed handle, and for \<open>grddl\<close> the context \<open>raptor_grddl_parse_init\<close>
  makes.
\<close>

definition raptor_new_parser_grddl :: "grddl_heap \<Rightarrow> raptor_parser \<times> grddl_heap" where
  "raptor_new_parser_grddl heap =
     (case raptor_grddl_parse_init heap of
        (g, heap') \<Rightarrow> (Raptor_parser None False 0 None None g No_parser, heap'))"

definition raptor_new_parser :: "grddl_heap \<Rightarrow> string \<Rightarrow> internal_parser \<times> grddl_heap" where
  "raptor_new_parser heap name =
     (if name = ''grddl''
      then (case raptor_new_parser_grddl heap of (p, heap') \<Rightarrow> (Grddl_parser p, heap'))
      else (Syntax_parser name, heap))"

text \<open>
  \<open>raptor_free_parser\<close> (raptor\_parse.c, lines 511-527) on a GRDDL parser calls
  \<open>raptor_grddl_parse_terminate\<close> (lines 176-216): the inner parser is freed, and the
  sequence of visited URIs if the depth is 0.  What else is freed is not in the store.
\<close>

primrec raptor_free_parser :: "grddl_heap \<Rightarrow> raptor_parser \<Rightarrow> memory_fault + grddl_heap"
  and free_internal_parser :: "grddl_heap \<Rightarrow> internal_parser \<Rightarrow> memory_fault + grddl_heap" where
  "raptor_free_parser heap (Raptor_parser b f u h c g inner) =
     (case free_internal_parser heap inner of
        Inl e \<Rightarrow> Inl e
      | Inr heap1 \<Rightarrow>
          if grddl_depth g = 0 then raptor_free_sequence heap1 (visited_uris g) else Inr heap1)"
| "free_internal_parser heap No_parser = Inr heap"
| "free_internal_parser heap (Grddl_parser q) = raptor_free_parser heap q"
| "free_internal_parser heap (Syntax_parser name) = Inr heap"

text \<open>\<open>raptor_grddl_seen_uri\<close> (lines 688-708): the loop, and the function on the store.\<close>

fun seen_uri_loop :: "raptor_uri \<Rightarrow> raptor_uri list \<Rightarrow> bool" where
  "seen_uri_loop uri [] = False"
| "seen_uri_loop uri (vuri # rest) = (if uri = vuri then True else seen_uri_loop uri rest)"

definition raptor_grddl_seen_uri ::
  "grddl_heap \<Rightarrow> raptor_grddl_parser_context \<Rightarrow> raptor_uri \<Rightarrow> memory_fault + bool" where
  "raptor_grddl_seen_uri heap g uri =
     (case sequences heap (visited_uris g) of
        None \<Rightarrow> Inl Use_after_free
      | Some seq \<Rightarrow> Inr (seen_uri_loop uri seq))"

text \<open>\<open>raptor_grddl_done_uri\<close> (lines 711-719).\<close>

definition raptor_grddl_done_uri ::
  "grddl_heap \<Rightarrow> raptor_grddl_parser_context \<Rightarrow> raptor_uri \<Rightarrow> memory_fault + grddl_heap" where
  "raptor_grddl_done_uri heap g uri =
     (case raptor_grddl_seen_uri heap g uri of
        Inl f \<Rightarrow> Inl f
      | Inr True \<Rightarrow> Inr heap
      | Inr False \<Rightarrow>
          (case sequences heap (visited_uris g) of
             None \<Rightarrow> Inl Use_after_free
           | Some seq \<Rightarrow>
               Inr (heap\<lparr> sequences := (sequences heap)(visited_uris g := Some (seq @ [uri])) \<rparr>)))"

text \<open>
  \<open>raptor_grddl_parser_add_parent\<close> (lines 219-231): the sequence the child points to
  is freed, whatever it is, and the child then points to the parent's.
\<close>

definition raptor_grddl_parser_add_parent ::
  "grddl_heap \<Rightarrow> raptor_grddl_parser_context \<Rightarrow> raptor_grddl_parser_context \<Rightarrow>
   memory_fault + raptor_grddl_parser_context \<times> grddl_heap" where
  "raptor_grddl_parser_add_parent heap g parent_grddl_parser =
     (case raptor_free_sequence heap (visited_uris g) of
        Inl f \<Rightarrow> Inl f
      | Inr heap' \<Rightarrow>
          Inr (g\<lparr> visited_uris := visited_uris parent_grddl_parser,
                  grddl_depth := grddl_depth parent_grddl_parser + 1 \<rparr>, heap'))"

text \<open>
  \<open>raptor_parser_copy_user_state\<close> (raptor\_parse.c, lines 1619-1640), and the two
  assignments of lines 428-429 and 432-433, on an inner parser: of the parser of another
  syntax the model keeps no handler.
\<close>

definition inner_set_statement_handler ::
  "user_data \<Rightarrow> raptor_statement_handler option \<Rightarrow> internal_parser \<Rightarrow> internal_parser" where
  "inner_set_statement_handler u h inner =
     (case inner of
        Grddl_parser q \<Rightarrow> Grddl_parser (set_statement_handler u h q)
      | other \<Rightarrow> other)"

text \<open>
  \<open>raptor_grddl_ensure_internal_parser\<close> (lines 392-436).  The name is that of a
  registered syntax, so that \<open>raptor_new_parser\<close> finds its factory.
\<close>

definition raptor_grddl_ensure_internal_parser ::
  "grddl_heap \<Rightarrow> raptor_parser \<Rightarrow> string \<Rightarrow> bool \<Rightarrow> memory_fault + raptor_parser \<times> grddl_heap" where
  "raptor_grddl_ensure_internal_parser heap p parser_name relay =
     (case
        (if internal_parser_name (rp_context p) \<noteq> Some parser_name
         then
           (case free_internal_parser heap (rp_internal_parser p) of
              Inl f \<Rightarrow> Inl f
            | Inr heap1 \<Rightarrow>
                (case raptor_new_parser heap1 parser_name of
                   (inner, heap2) \<Rightarrow>
                     Inr (set_internal_parser
                            (inner_set_statement_handler (rp_user_data p) (rp_statement_handler p)
                               inner)
                            (map_context
                               (\<lambda>g. g\<lparr> internal_parser_name := Some parser_name,
                                       saved_user_data := rp_user_data p,
                                       saved_statement_handler := rp_statement_handler p \<rparr>) p),
                          heap2)))
         else Inr (p, heap)) of
        Inl f \<Rightarrow> Inl f
      | Inr (p1, heap') \<Rightarrow>
          (case rp_internal_parser p1 of
             No_parser \<Rightarrow> Inl Null_dereference
           | inner \<Rightarrow>
               Inr (set_internal_parser
                      (if relay
                       then inner_set_statement_handler (parser_pointer p1)
                              (Some relay_triples_handler) inner
                       else inner_set_statement_handler (saved_user_data (rp_context p1))
                              (saved_statement_handler (rp_context p1)) inner)
                      p1,
                    heap')))"

subsection \<open>Transforms\<close>

text \<open>
  What the collaborators of \<open>raptor_grddl_run_grddl_transform_uri\<close> and
  \<open>raptor_grddl_run_grddl_transform_doc\<close> (lines 442-554, 645-685) answer for a
  stylesheet URI, applied to a document at a base URI: the fetch fails (line 669, a
  return value that is not 0); it succeeds without a byte, so that no push parser
  context exists when line 677 reads its document; the stylesheet cannot be parsed or
  applied (lines 460-473); the result is empty (line 485); or there is a result, with
  the name \<open>raptor_guess_parser_name\<close> gives for it (\<open>None\<close> for NULL) and the triples the
  parser of that name emits for it.
\<close>

datatype transform_outcome =
    Fetch_failed
  | Fetched_no_bytes
  | Stylesheet_failed
  | Empty_result
  | Result "string option" "raptor_statement list"

type_synonym stylesheets = "raptor_uri \<Rightarrow> grddl_document \<Rightarrow> raptor_uri \<Rightarrow> transform_outcome"

text \<open>
  One transform on the engine, given the answer of the collaborators.  On the context
  it is the step \<open>raptor_grddl_run_grddl_transform_uri\<close> above, with the return value and
  the triples known.  A guess of \<open>grddl\<close> is turned down (line 528) and no triple is
  emitted; otherwise the inner parser becomes one of the guessed name, with the relay
  installed, and its triples go through the relay filter.
\<close>

definition transform_step ::
  "int \<Rightarrow> raptor_statement list \<Rightarrow> raptor_parser \<times> grddl_heap \<Rightarrow> raptor_uri \<Rightarrow>
   int \<times> raptor_parser \<times> grddl_heap" where
  "transform_step ret triples ph xslt_uri =
     (case raptor_grddl_run_grddl_transform_uri (\<lambda>uri. (ret, triples))
             (rp_context (fst ph)) xslt_uri of
        (ret', g) \<Rightarrow> (ret', map_context (\<lambda>_. g) (fst ph), snd ph))"

definition raptor_grddl_run_grddl_transform_doc ::
  "transform_outcome \<Rightarrow> raptor_parser \<times> grddl_heap \<Rightarrow> raptor_uri \<Rightarrow>
   memory_fault + int \<times> raptor_parser \<times> grddl_heap" where
  "raptor_grddl_run_grddl_transform_doc outcome ph xslt_uri =
     (case outcome of
        Fetch_failed \<Rightarrow> Inr (transform_step 1 [] ph xslt_uri)
      | Fetched_no_bytes \<Rightarrow> Inl Null_dereference
      | Stylesheet_failed \<Rightarrow> Inr (transform_step 1 [] ph xslt_uri)
      | Empty_result \<Rightarrow> Inr (transform_step 0 [] ph xslt_uri)
      | Result None triples \<Rightarrow> Inl Null_dereference
      | Result (Some parser_name) triples \<Rightarrow>
          if parser_name = ''grddl'' then Inr (transform_step 0 [] ph xslt_uri)
          else
            (case raptor_grddl_ensure_internal_parser (snd ph) (fst ph) parser_name True of
               Inl f \<Rightarrow> Inl f
             | Inr ph1 \<Rightarrow> Inr (transform_step 0 triples ph1 xslt_uri)))"

text \<open>
  The loop of lines 1053-1061 on the engine: as \<open>apply_transforms_loop\<close>, with the inner
  parser in the state.
\<close>

partial_function (option) grddl_transforms_loop ::
  "(raptor_uri \<Rightarrow> transform_outcome) \<Rightarrow> nat \<Rightarrow> int \<Rightarrow> raptor_parser \<times> grddl_heap \<Rightarrow> grddl_result" where
  "grddl_transforms_loop sheet i ret ph =
     (if i < length (doc_transform_uris (rp_context (fst ph)))
      then
        (case doc_transform_uris (rp_context (fst ph)) of
           [] \<Rightarrow> Some (Inr (ret, fst ph, snd ph))
         | uri # rest \<Rightarrow>
             (case raptor_grddl_run_grddl_transform_doc (sheet uri)
                     (map_context (\<lambda>g. g\<lparr>doc_transform_uris := rest\<rparr>) (fst ph), snd ph) uri of
                Inl f \<Rightarrow> Some (Inl f)
              | Inr (ret', p', heap') \<Rightarrow>
                  if ret' \<noteq> 0 then Some (Inr (ret', p', heap'))
                  else grddl_transforms_loop sheet (i + 1) ret' (p', heap')))
      else Some (Inr (ret, fst ph, snd ph)))"

subsection \<open>Recursive processing of a URI\<close>

text \<open>
  The statements an inner GRDDL parser has handed to the relay filter of its owner
  during a run: the calls it recorded since the run began whose handler is the relay
  filter.
\<close>

definition relayed_statements ::
  "raptor_grddl_parser_context \<Rightarrow> raptor_grddl_parser_context \<Rightarrow> raptor_statement list" where
  "relayed_statements before after =
     map (\<lambda>call. snd (snd call))
       (filter (\<lambda>call. fst call = relay_triples_handler)
          (drop (length (handler_calls before)) (handler_calls after)))"

text \<open>
  \<open>raptor_grddl_run_recursive\<close> (lines 853-884).  \<open>web\<close> is the fetcher with the push
  parser behind it: for a URI the context its bytes give, \<open>None\<close> when the fetch fails (as
  it does with the no-network feature).  A context an inner parser already has stays as
  it is when more bytes arrive.  \<open>chunk\<close> is \<open>raptor_parse_chunk(internal_parser, NULL, 0,
  1)\<close>, a call through the factory's function pointer; its return value is not read.

  The inner parser calls the relay filter of this engine while it runs.  This engine
  does nothing in that time and the inner parser reads nothing of it, so the model
  makes these calls, in their order, when the inner parser has returned.
\<close>

definition raptor_grddl_run_recursive ::
  "(raptor_parser \<times> grddl_heap \<Rightarrow> grddl_result) \<Rightarrow> (raptor_uri \<Rightarrow> xml_parser_ctxt option) \<Rightarrow>
   raptor_parser \<times> grddl_heap \<Rightarrow> raptor_uri \<Rightarrow> grddl_result" where
  "raptor_grddl_run_recursive chunk web ph uri =
     (case raptor_grddl_seen_uri (snd ph) (rp_context (fst ph)) uri of
        Inl f \<Rightarrow> Some (Inl f)
      | Inr True \<Rightarrow> Some (Inr (0, fst ph, snd ph))
      | Inr False \<Rightarrow>
          (case raptor_grddl_ensure_internal_parser (snd ph) (fst ph) ''grddl'' True of
             Inl f \<Rightarrow> Some (Inl f)
           | Inr (p1, heap1) \<Rightarrow>
               (case rp_internal_parser p1 of
                  Grddl_parser inner \<Rightarrow>
                    (case raptor_grddl_parser_add_parent heap1 (rp_context inner) (rp_context p1) of
                       Inl f \<Rightarrow> Some (Inl f)
                     | Inr (g, heap2) \<Rightarrow>
                         (case web uri of
                            None \<Rightarrow>
                              Some (Inr (1,
                                set_internal_parser
                                  (Grddl_parser (set_base_uri (Some uri) (map_context (\<lambda>_. g) inner)))
                                  p1,
                                heap2))
                          | Some fetched \<Rightarrow>
                              (case chunk
                                      (set_ctxt
                                         (case rp_ctxt inner of None \<Rightarrow> Some fetched
                                          | Some old \<Rightarrow> Some old)
                                         (set_base_uri (Some uri) (map_context (\<lambda>_. g) inner)),
                                       heap2) of
                                 None \<Rightarrow> None
                               | Some (Inl f) \<Rightarrow> Some (Inl f)
                               | Some (Inr (r, inner', heap3)) \<Rightarrow>
                                   Some (Inr (0,
                                     map_context
                                       (\<lambda>parent. relay_statements parent
                                          (relayed_statements g (rp_context inner')))
                                       (set_internal_parser (Grddl_parser inner') p1),
                                     heap3)))))
                | _ \<Rightarrow> Some (Inl Null_dereference))))"

subsection \<open>The terminal chunk\<close>

definition grddl_namespace_uris_ignore_list :: "string list" where
  "grddl_namespace_uris_ignore_list =
     [''http://www.w3.org/1999/xhtml'',
      ''http://www.w3.org/1999/02/22-rdf-syntax-ns#'',
      ''http://www.w3.org/2001/XMLSchema'']"

text \<open>
  Lines 934-976 of \<open>raptor_grddl_parse_chunk\<close>: the root namespace, its recursive
  processing through \<open>run\<close>, and the push of \<open>root_ns_uri\<close> (NULL or not) onto the
  profile URIs.
\<close>

definition grddl_root_namespace ::
  "(raptor_parser \<times> grddl_heap \<Rightarrow> raptor_uri \<Rightarrow> grddl_result) \<Rightarrow>
   (raptor_uri option \<Rightarrow> string \<Rightarrow> raptor_uri) \<Rightarrow> raptor_uri \<Rightarrow> grddl_document \<Rightarrow>
   raptor_parser \<times> grddl_heap \<Rightarrow> grddl_result" where
  "grddl_root_namespace run resolve base doc ph =
     (case (case doc_root_ns doc of
              None \<Rightarrow> None
            | Some s \<Rightarrow> if s \<in> set grddl_namespace_uris_ignore_list then None else Some s) of
        None \<Rightarrow>
          Some (Inr (0,
            map_context (\<lambda>g. g\<lparr> profile_uris := profile_uris g @ [root_ns_uri g] \<rparr>) (fst ph),
            snd ph))
      | Some ns_uri_string \<Rightarrow>
          (case run (map_context
                       (\<lambda>g. g\<lparr> root_ns_uri := Some (resolve (Some base) ns_uri_string) \<rparr>) (fst ph),
                     snd ph)
                  (resolve (Some base) ns_uri_string) of
             None \<Rightarrow> None
           | Some (Inl f) \<Rightarrow> Some (Inl f)
           | Some (Inr (r, p', heap')) \<Rightarrow>
               Some (Inr (0,
                 map_context (\<lambda>g. g\<lparr> profile_uris := profile_uris g @ [root_ns_uri g] \<rparr>) p',
                 heap'))))"

text \<open>The loop of lines 1005-1012 over the head-profile URIs.\<close>

fun grddl_profiles_loop ::
  "(raptor_parser \<times> grddl_heap \<Rightarrow> raptor_uri \<Rightarrow> grddl_result) \<Rightarrow>
   raptor_parser \<times> grddl_heap \<Rightarrow> raptor_uri list \<Rightarrow> int \<Rightarrow> grddl_result" where
  "grddl_profiles_loop run ph [] ret = Some (Inr (ret, fst ph, snd ph))"
| "grddl_profiles_loop run ph (uri # rest) ret =
     (case run ph uri of
        None \<Rightarrow> None
      | Some (Inl f) \<Rightarrow> Some (Inl f)
      | Some (Inr (ret', p', heap')) \<Rightarrow> grddl_profiles_loop run (p', heap') rest ret')"

definition head_profile_xpath :: string where
  "head_profile_xpath = ''/html:html/html:head/@profile''"

text \<open>Lines 994-1019: the head-profile URIs, their recursive processing, the join.\<close>

definition grddl_head_profiles ::
  "(raptor_parser \<times> grddl_heap \<Rightarrow> raptor_uri \<Rightarrow> grddl_result) \<Rightarrow>
   (raptor_uri option \<Rightarrow> string \<Rightarrow> raptor_uri) \<Rightarrow> raptor_uri \<Rightarrow> grddl_document \<Rightarrow>
   raptor_parser \<times> grddl_heap \<Rightarrow> grddl_result" where
  "grddl_head_profiles run resolve base doc ph =
     (case raptor_grddl_run_xpath_match resolve (Some base) (doc_xpath doc head_profile_xpath)
             (MATCH_IS_VALUE_LIST OR MATCH_IS_PROFILE) of
        Inl f \<Rightarrow> Some (Inl f)
      | Inr None \<Rightarrow> Some (Inr (0, fst ph, snd ph))
      | Inr (Some result) \<Rightarrow>
          (case grddl_profiles_loop run ph result 0 of
             None \<Rightarrow> None
           | Some (Inl f) \<Rightarrow> Some (Inl f)
           | Some (Inr (ret, p', heap')) \<Rightarrow>
               Some (Inr (ret,
                 map_context (\<lambda>g. g\<lparr> profile_uris := profile_uris g @ map Some result \<rparr>) p',
                 heap'))))"

text \<open>
  \<open>match_table\<close> (lines 248-318, the rows that are compiled in): XPath expression, flags,
  hard-coded stylesheet URI.
\<close>

definition match_table :: "(string \<times> nat \<times> string option) list" where
  "match_table =
     [(''/html:html/html:head[contains(@profile,'' @ [CHR 0x22]
         @ ''http://www.w3.org/2003/g/data-view'' @ [CHR 0x22] @ '')]/html:link[@rel=''
         @ [CHR 0x22] @ ''transformation'' @ [CHR 0x22] @ '']/@href'', 0, None),
      (''/html:html/html:head[contains(@profile,'' @ [CHR 0x22]
         @ ''http://www.w3.org/2003/g/data-view'' @ [CHR 0x22] @ '')]/../..//html:a[@rel=''
         @ [CHR 0x22] @ ''transformation'' @ [CHR 0x22] @ '']/@href'', 0, None),
      (''//@dataview:transformation'', MATCH_IS_VALUE_LIST, None)]"

text \<open>
  The loop of lines 1023-1046 over the rows that are left.  A hard-coded stylesheet URI
  takes the place of the first URI of the result.
\<close>

fun xpath_table_loop ::
  "(raptor_uri option \<Rightarrow> string \<Rightarrow> raptor_uri) \<Rightarrow> grddl_document \<Rightarrow>
   (string \<times> nat \<times> string option) list \<Rightarrow> raptor_parser \<Rightarrow> memory_fault + raptor_parser" where
  "xpath_table_loop resolve doc [] p = Inr p"
| "xpath_table_loop resolve doc ((xpath, flags, xslt_sheet_uri) # rows) p =
     (case raptor_grddl_run_xpath_match resolve (rp_base_uri p) (doc_xpath doc xpath) flags of
        Inl f \<Rightarrow> Inl f
      | Inr result \<Rightarrow>
          (let p1 =
             (case result of
                None \<Rightarrow> p
              | Some uris \<Rightarrow>
                  map_context
                    (\<lambda>g. g\<lparr> doc_transform_uris := doc_transform_uris g @
                       (case xslt_sheet_uri of
                          None \<Rightarrow> uris
                        | Some uri_string \<Rightarrow> resolve (rp_base_uri p) uri_string # drop 1 uris) \<rparr>)
                    p)
           in if rp_failed p1 then Inr p1 else xpath_table_loop resolve doc rows p1))"

text \<open>
  Lines 927-1064: what the terminal chunk does with the document once the base URI is
  marked.  The \<open>failed\<close> flag is set by \<open>raptor_parser_fatal_error\<close> and
  \<open>raptor_parse_abort\<close> (raptor\_parse.c), which no function of raptor\_grddl.c calls;
  the handlers of the user are taken not to call them.
\<close>

definition grddl_parse_document ::
  "(raptor_parser \<times> grddl_heap \<Rightarrow> raptor_uri \<Rightarrow> grddl_result) \<Rightarrow>
   (raptor_uri option \<Rightarrow> string \<Rightarrow> raptor_uri) \<Rightarrow> stylesheets \<Rightarrow> raptor_uri \<Rightarrow> grddl_document \<Rightarrow>
   raptor_parser \<times> grddl_heap \<Rightarrow> grddl_result" where
  "grddl_parse_document run resolve sheets base doc ph =
     (case grddl_root_namespace run resolve base doc ph of
        None \<Rightarrow> None
      | Some (Inl f) \<Rightarrow> Some (Inl f)
      | Some (Inr (r, p1, heap1)) \<Rightarrow>
          (case grddl_head_profiles run resolve base doc (p1, heap1) of
             None \<Rightarrow> None
           | Some (Inl f) \<Rightarrow> Some (Inl f)
           | Some (Inr (ret, p2, heap2)) \<Rightarrow>
               (case xpath_table_loop resolve doc match_table p2 of
                  Inl f \<Rightarrow> Some (Inl f)
                | Inr p3 \<Rightarrow>
                    if rp_failed p3 then Some (Inr (1, p3, heap2))
                    else
                      (case grddl_transforms_loop (sheets base doc) 0 ret (p3, heap2) of
                         None \<Rightarrow> None
                       | Some (Inl f) \<Rightarrow> Some (Inl f)
                       | Some (Inr (ret', p4, heap4)) \<Rightarrow>
                           Some (Inr (if ret' \<noteq> 0 then 1 else 0, p4, heap4))))))"

text \<open>
  The terminal chunk of \<open>raptor_grddl_parse_chunk\<close> (lines 887-1065).  A parser that has
  had no bytes gets its push parser context now (lines 901-917), and libxml makes no
  document of no bytes.  Then the base URI is marked as visited (line 924) and the
  document is worked on.  The recursion goes through \<open>raptor_grddl_run_recursive\<close> and
  can go on for ever; the first argument bounds its depth, and the result is \<open>None\<close>
  when the bound is reached.
\<close>

fun raptor_grddl_parse_chunk ::
  "nat \<Rightarrow> (raptor_uri option \<Rightarrow> string \<Rightarrow> raptor_uri) \<Rightarrow> (raptor_uri \<Rightarrow> xml_parser_ctxt option) \<Rightarrow>
   stylesheets \<Rightarrow> raptor_parser \<times> grddl_heap \<Rightarrow> grddl_result" where
  "raptor_grddl_parse_chunk 0 resolve web sheets ph = None"
| "raptor_grddl_parse_chunk (Suc n) resolve web sheets ph =
     (case rp_base_uri (fst ph) of
        None \<Rightarrow> Some (Inl Null_dereference)
      | Some base \<Rightarrow>
          (case raptor_grddl_done_uri (snd ph) (rp_context (fst ph)) base of
             Inl f \<Rightarrow> Some (Inl f)
           | Inr heap1 \<Rightarrow>
               (case rp_ctxt (fst ph) of
                  None \<Rightarrow> Some (Inr (1, set_ctxt (Some (Xml_parser_ctxt None)) (fst ph), heap1))
                | Some ctxt \<Rightarrow>
                    (case myDoc ctxt of
                       None \<Rightarrow> Some (Inr (1, fst ph, heap1))
                     | Some doc \<Rightarrow>
                         grddl_parse_document
                           (raptor_grddl_run_recursive
                              (\<lambda>inner. raptor_grddl_parse_chunk n resolve web sheets inner) web)
                           resolve sheets base doc (fst ph, heap1)))))"

text \<open>
  A parse at depth 0: a new parser on the empty store, the statement handler of the
  user, \<open>raptor_start_parse\<close> with the base URI, the chunks of the input (giving the
  context \<open>ctxt\<close>), the terminal chunk.
\<close>

definition raptor_grddl_parse ::
  "nat \<Rightarrow> (raptor_uri option \<Rightarrow> string \<Rightarrow> raptor_uri) \<Rightarrow> (raptor_uri \<Rightarrow> xml_parser_ctxt option) \<Rightarrow>
   stylesheets \<Rightarrow> user_data \<Rightarrow> raptor_statement_handler option \<Rightarrow> raptor_uri \<Rightarrow> xml_parser_ctxt \<Rightarrow>
   grddl_result" where
  "raptor_grddl_parse n resolve web sheets user_data handler base ctxt =
     (case raptor_new_parser_grddl empty_heap of
        (p, heap) \<Rightarrow>
          raptor_grddl_parse_chunk n resolve web sheets
            (set_ctxt (Some ctxt)
               (set_base_uri (Some base) (set_statement_handler user_data handler p)), heap))"

subsection \<open>Inputs on which the recursion is followed to its end\<close>




text \<open>
  A triple names a transformation when its predicate is one of the two the relay filter
  looks for.  Stylesheets are quiet when every fetch that succeeds has bytes, every
  result has a guessed parser name, and no triple of a result names a transformation.
\<close>

definition names_transformation :: "raptor_statement \<Rightarrow> bool" where
  "names_transformation st =
     (predicate st = ''http://www.w3.org/2003/g/data-view#namespaceTransformation''
      \<or> predicate st = ''http://www.w3.org/2003/g/data-view#profileTransformation'')"


text \<open>
  What a run keeps of an engine, for the address \<open>a\<close> of the visited URIs: the engine
  points to \<open>a\<close> and has the two predicates of \<open>raptor_grddl_parse_init\<close>; no statement
  it forwarded names a transformation; its inner parser is the one the name says; and
  no GRDDL parser inside it is at depth 0, where it would free the sequence it points to.
\<close>

primrec borrows :: "raptor_parser \<Rightarrow> bool"
  and inner_borrows :: "internal_parser \<Rightarrow> bool" where
  "borrows (Raptor_parser b f u h c g inner) = (0 < grddl_depth g \<and> inner_borrows inner)"
| "inner_borrows No_parser = True"
| "inner_borrows (Grddl_parser q) = borrows q"
| "inner_borrows (Syntax_parser name) = True"

primrec name_of_parser :: "internal_parser \<Rightarrow> string option" where
  "name_of_parser No_parser = None"
| "name_of_parser (Grddl_parser q) = Some ''grddl''"
| "name_of_parser (Syntax_parser name) = Some name"

definition engine_inv :: "nat \<Rightarrow> raptor_parser \<Rightarrow> bool" where
  "engine_inv a p =
     (visited_uris (rp_context p) = a
      \<and> namespace_transformation_uri (rp_context p) =
          ''http://www.w3.org/2003/g/data-view#namespaceTransformation''
      \<and> profile_transformation_uri (rp_context p) =
          ''http://www.w3.org/2003/g/data-view#profileTransformation''
      \<and> (\<forall>call \<in> set (handler_calls (rp_context p)). \<not> names_transformation (snd (snd call)))
      \<and> inner_borrows (rp_internal_parser p)
      \<and> internal_parser_name (rp_context p) = name_of_parser (rp_internal_parser p)
      \<and> rp_internal_parser p \<noteq> Syntax_parser ''grddl'')"

text \<open>
  A step of an engine from \<open>p\<close> to \<open>p'\<close> that keeps these facts, the base URI and the
  depth; and a run that returns, not by a fault, after such a step, with the sequence at
  \<open>a\<close> alive and no smaller.
\<close>

definition engine_step :: "nat \<Rightarrow> raptor_parser \<Rightarrow> raptor_parser \<Rightarrow> bool" where
  "engine_step a p p' =
     (engine_inv a p' \<and> rp_base_uri p' = rp_base_uri p
      \<and> grddl_depth (rp_context p') = grddl_depth (rp_context p))"





definition plain_document :: xml_parser_ctxt where
  "plain_document =
     Xml_parser_ctxt (Some \<lparr> doc_root_ns = Some ''http://www.w3.org/1999/xhtml'',
                              doc_xpath = (\<lambda>xpath. None) \<rparr>)"

definition two_profiles_web :: "raptor_uri \<Rightarrow> xml_parser_ctxt option" where
  "two_profiles_web uri =
     (if uri = ''http://ex/p1'' \<or> uri = ''http://ex/p2'' then Some plain_document else None)"

definition two_profiles_document :: xml_parser_ctxt where
  "two_profiles_document =
     Xml_parser_ctxt (Some \<lparr> doc_root_ns = Some ''http://www.w3.org/1999/xhtml'',
        doc_xpath = (\<lambda>xpath. if xpath = head_profile_xpath
                         then Some [XML_ATTRIBUTE_NODE (Some ''http://ex/p1 http://ex/p2'') None]
                         else None) \<rparr>)"



definition no_stylesheets :: stylesheets where
  "no_stylesheets base doc uri = Fetch_failed"

section \<open>Registry: registration order\<close>

lemma syntaxes_enumerate_loop_shift:
  "syntaxes_enumerate_loop (Suc i) fs (Suc c) = syntaxes_enumerate_loop i fs c"
  by (induction fs arbitrary: i c) auto

lemma syntaxes_enumerate_loop_nth:
  "i < length fs \<Longrightarrow> syntaxes_enumerate_loop 0 fs i = Some (syntax_info_of (fs ! i))"
proof (induction fs arbitrary: i)
  case Nil
  then show ?case by simp
next
  case (Cons f fs)
  show ?case
  proof (cases i)
    case 0
    then show ?thesis by simp
  next
    case (Suc j)
    with Cons.prems have "j < length fs" by simp
    from Cons.IH [OF this] Suc show ?thesis
      using syntaxes_enumerate_loop_shift [of 0 fs j] by simp
  qed
qed

lemma syntaxes_enumerate_loop_beyond:
  "length fs \<le> i \<Longrightarrow> syntaxes_enumerate_loop 0 fs i = None"
proof (induction fs arbitrary: i)
  case Nil
  then show ?case by simp
next
  case (Cons f fs)
  then obtain j where j: "i = Suc j" "length fs \<le> j" by (cases i) auto
  with Cons.IH [of j] show ?case
    using syntaxes_enumerate_loop_shift [of 0 fs j] by simp
qed

lemma raptor_syntaxes_enumerate_nth:
  "raptor_syntaxes_enumerate fs i =
     (if i < length fs then Some (syntax_info_of (fs ! i)) else None)"
  by (cases fs)
     (simp_all add: raptor_syntaxes_enumerate_def syntaxes_enumerate_loop_nth
        syntaxes_enumerate_loop_beyond del: syntaxes_enumerate_loop.simps)

lemma register_sequence_prepends:
  "register_sequence parsers regs = Inr parsers' \<Longrightarrow>
   parsers' = rev (map registered_factory regs) @ parsers"
proof (induction regs arbitrary: parsers)
  case Nil
  then show ?case by simp
next
  case (Cons r regs)
  obtain nm lbl mime uri factory where r: "r = (nm, lbl, mime, uri, factory)"
    by (cases r) auto
  from Cons.prems r
  have step: "register_sequence (registered_factory r # parsers) regs = Inr parsers'"
    by (auto simp: raptor_parser_register_factory_def registered_factory_def Let_def
        split: if_splits)
  from Cons.IH [OF step] show ?case by simp
qed

text \<open>
  C10.  Registration puts the new factory at the head of the global list.  So after a
  run of registrations that started on the empty registry, \<open>raptor_syntaxes_enumerate\<close>
  at index \<open>i\<close> reports the factory registered \<open>i\<close> places before the last one (index 0
  the most recent one), and asking \<open>raptor_get_parser_factory\<close> for the NULL name yields
  the factory registered last, not the one registered first.  One successful
  registration returns the new head in front of the list it found.
\<close>

theorem registration_prepends_and_enumerates_in_reverse:
  "(raptor_parser_register_factory parsers nm lbl mime uri factory = Inr (parser, parsers') \<longrightarrow>
      parsers' = parser # parsers
      \<and> parser = registered_factory (nm, lbl, mime, uri, factory)
      \<and> raptor_syntaxes_enumerate parsers' 0 = Some (syntax_info_of parser)
      \<and> raptor_get_parser_factory parsers' None = Some parser)
   \<and> (register_sequence [] regs = Inr registered \<longrightarrow>
      registered = rev (map registered_factory regs)
      \<and> (\<forall>i < length regs.
            raptor_syntaxes_enumerate registered i =
              Some (syntax_info_of (registered_factory (regs ! (length regs - 1 - i)))))
      \<and> (regs \<noteq> [] \<longrightarrow>
            raptor_get_parser_factory registered None = Some (registered_factory (last regs))))"
proof (intro conjI impI)
  assume one: "raptor_parser_register_factory parsers nm lbl mime uri factory = Inr (parser, parsers')"
  then show "parsers' = parser # parsers"
    by (auto simp: raptor_parser_register_factory_def Let_def split: if_splits)
  from one show p: "parser = registered_factory (nm, lbl, mime, uri, factory)"
    by (auto simp: raptor_parser_register_factory_def registered_factory_def Let_def
        split: if_splits)
  from one have "parsers' = parser # parsers"
    by (auto simp: raptor_parser_register_factory_def Let_def split: if_splits)
  then show "raptor_syntaxes_enumerate parsers' 0 = Some (syntax_info_of parser)"
    and "raptor_get_parser_factory parsers' None = Some parser"
    by (simp_all add: raptor_syntaxes_enumerate_def raptor_get_parser_factory_def)
next
  assume run: "register_sequence [] regs = Inr registered"
  from register_sequence_prepends [OF run]
  show reg: "registered = rev (map registered_factory regs)" by simp
  show "\<forall>i < length regs.
          raptor_syntaxes_enumerate registered i =
            Some (syntax_info_of (registered_factory (regs ! (length regs - 1 - i))))"
  proof (intro allI impI)
    fix i assume i: "i < length regs"
    then have "rev (map registered_factory regs) ! i =
        registered_factory (regs ! (length regs - 1 - i))"
      by (simp add: rev_nth)
    with i reg show "raptor_syntaxes_enumerate registered i =
        Some (syntax_info_of (registered_factory (regs ! (length regs - 1 - i))))"
      by (simp add: raptor_syntaxes_enumerate_nth)
  qed
  assume ne: "regs \<noteq> []"
  then obtain r rs where "rev regs = r # rs" by (cases "rev regs") auto
  with ne have "rev (map registered_factory regs) = registered_factory (last regs) # map registered_factory rs"
    by (metis last_rev list.sel(1) list.simps(9) rev_map rev_rev_ident hd_rev)
  with reg show "raptor_get_parser_factory registered None = Some (registered_factory (last regs))"
    by (simp add: raptor_get_parser_factory_def)
qed

theorem registration_prepends_and_enumerates_in_reverse_witness:
  "register_sequence [] example_registrations =
     Inr (rev (map registered_factory example_registrations))
   \<and> raptor_syntaxes_enumerate (rev (map registered_factory example_registrations)) 0 =
       Some (''grddl'', ''GRDDL'', None, None)
   \<and> raptor_syntaxes_enumerate (rev (map registered_factory example_registrations)) 2 =
       Some (''rdfxml'', ''RDF/XML'', Some ''application/rdf+xml'', None)
   \<and> map_option pf_name
       (raptor_get_parser_factory (rev (map registered_factory example_registrations)) None) =
       Some ''grddl''"
proof -
  have run: "register_sequence [] example_registrations =
      Inr (rev (map registered_factory example_registrations))"
    by (simp add: example_registrations_def raptor_parser_register_factory_def
        registered_factory_def Let_def)
  have ne: "example_registrations \<noteq> []" and len: "length example_registrations = 3"
    by (simp_all add: example_registrations_def)
  note inst = registration_prepends_and_enumerates_in_reverse
    [of "[]" "''x''" "''x''" None None "\<lambda>f. f" undefined undefined example_registrations
        "rev (map registered_factory example_registrations)", THEN conjunct2, rule_format, OF run]
  from inst have e: "\<forall>i < length example_registrations.
      raptor_syntaxes_enumerate (rev (map registered_factory example_registrations)) i =
        Some (syntax_info_of
          (registered_factory (example_registrations ! (length example_registrations - 1 - i))))"
    by blast
  from inst ne have g: "raptor_get_parser_factory (rev (map registered_factory example_registrations)) None =
      Some (registered_factory (last example_registrations))"
    by blast
  from e [rule_format, of 0] len
  have e0: "raptor_syntaxes_enumerate (rev (map registered_factory example_registrations)) 0 =
      Some (''grddl'', ''GRDDL'', None, None)"
    by (simp add: example_registrations_def registered_factory_def syntax_info_of_def)
  from e [rule_format, of 2] len
  have e2: "raptor_syntaxes_enumerate (rev (map registered_factory example_registrations)) 2 =
      Some (''rdfxml'', ''RDF/XML'', Some ''application/rdf+xml'', None)"
    by (simp add: example_registrations_def registered_factory_def syntax_info_of_def)
  from g have g': "map_option pf_name
       (raptor_get_parser_factory (rev (map registered_factory example_registrations)) None) =
       Some ''grddl''"
    by (simp add: example_registrations_def registered_factory_def)
  from run e0 e2 g' show ?thesis by blast
qed

section \<open>GRDDL: the relay filter\<close>

lemma relay_profiles_loop_rest:
  "1 \<le> i \<Longrightarrow> i = 1 \<or> pu = profile_transformation_uri g \<Longrightarrow>
   relay_profiles_loop i pu ps st g =
     g\<lparr>doc_transform_uris := doc_transform_uris g @
          map (\<lambda>_. object st)
            (filter (\<lambda>entry. entry = Some (subject st) \<and>
                       predicate st = profile_transformation_uri g) ps)\<rparr>"
proof (induction ps arbitrary: i pu g)
  case Nil
  then show ?case by simp
next
  case (Cons entry ps)
  let ?pu = "if i = 1 then profile_transformation_uri g else pu"
  from Cons.prems have pu: "?pu = profile_transformation_uri g" by auto
  have step: "\<And>g'. profile_transformation_uri g' = profile_transformation_uri g \<Longrightarrow>
      relay_profiles_loop (i + 1) (profile_transformation_uri g) ps st g' =
        g'\<lparr>doc_transform_uris := doc_transform_uris g' @
          map (\<lambda>_. object st)
            (filter (\<lambda>entry. entry = Some (subject st) \<and>
                       predicate st = profile_transformation_uri g) ps)\<rparr>"
    using Cons.IH [of "i + 1" "profile_transformation_uri g"] by simp
  show ?case
    by (cases entry) (simp_all add: pu step Let_def del: One_nat_def)
qed

lemma relay_profiles_loop_closed:
  "relay_profiles_loop 0 (namespace_transformation_uri g) (profile_uris g) st g =
     g\<lparr>doc_transform_uris := doc_transform_uris g @ relay_pushes g st\<rparr>"
proof (cases "profile_uris g")
  case Nil
  then show ?thesis by (simp add: relay_pushes_def)
next
  case (Cons root heads)
  have rest: "\<And>g'. profile_transformation_uri g' = profile_transformation_uri g \<Longrightarrow>
      relay_profiles_loop (Suc 0) (namespace_transformation_uri g) heads st g' =
        g'\<lparr>doc_transform_uris := doc_transform_uris g' @
          map (\<lambda>_. object st)
            (filter (\<lambda>entry. entry = Some (subject st) \<and>
                       predicate st = profile_transformation_uri g) heads)\<rparr>"
    using relay_profiles_loop_rest [of 1 "namespace_transformation_uri g" _ heads st] by simp
  from Cons show ?thesis
    by (cases root) (simp_all add: relay_pushes_def rest Let_def)
qed

lemma relay_triples_closed:
  "raptor_grddl_relay_triples g st =
     (let g1 = (if subject_type st = RAPTOR_IDENTIFIER_TYPE_RESOURCE
                   \<and> predicate_type st = RAPTOR_IDENTIFIER_TYPE_RESOURCE
                   \<and> object_type st = RAPTOR_IDENTIFIER_TYPE_RESOURCE
                then g\<lparr>doc_transform_uris := doc_transform_uris g @ relay_pushes g st\<rparr> else g)
      in case saved_statement_handler g of
           None \<Rightarrow> g1
         | Some h \<Rightarrow> g1\<lparr>handler_calls := handler_calls g @ [(h, saved_user_data g, st)]\<rparr>)"
  by (simp add: raptor_grddl_relay_triples_def relay_profiles_loop_closed Let_def
      split: option.split)

lemma relay_triples_frame:
  "saved_statement_handler (raptor_grddl_relay_triples g st) = saved_statement_handler g"
  "saved_user_data (raptor_grddl_relay_triples g st) = saved_user_data g"
  "profile_uris (raptor_grddl_relay_triples g st) = profile_uris g"
  "namespace_transformation_uri (raptor_grddl_relay_triples g st) = namespace_transformation_uri g"
  "profile_transformation_uri (raptor_grddl_relay_triples g st) = profile_transformation_uri g"
  "visited_uris (raptor_grddl_relay_triples g st) = visited_uris g"
  "transforms_run (raptor_grddl_relay_triples g st) = transforms_run g"
  by (simp_all add: relay_triples_closed Let_def
      split: option.split)

lemma relay_triples_calls:
  "handler_calls (raptor_grddl_relay_triples g st) =
     handler_calls g @
       (case saved_statement_handler g of None \<Rightarrow> []
        | Some h \<Rightarrow> [(h, saved_user_data g, st)])"
  by (simp add: relay_triples_closed Let_def
      split: option.split)

lemma relay_statements_frame:
  "saved_statement_handler (relay_statements g sts) = saved_statement_handler g"
  "saved_user_data (relay_statements g sts) = saved_user_data g"
  unfolding relay_statements_def
  by (induction sts arbitrary: g) (simp_all add: relay_triples_frame)

lemma relay_statements_calls:
  "saved_statement_handler g = Some h \<Longrightarrow>
   handler_calls (relay_statements g sts) =
     handler_calls g @ map (\<lambda>st. (h, saved_user_data g, st)) sts"
  unfolding relay_statements_def
  by (induction sts arbitrary: g) (simp_all add: relay_triples_frame relay_triples_calls)

text \<open>
  C4.  In the relay filter, for a triple whose subject, predicate and object are all
  resource URIs, every entry of the profile-URI list that is present and equals the
  subject is tested against one predicate: \<open>data-view#namespaceTransformation\<close> for
  entry 0 (the root namespace; a NULL entry never matches), the value of
  \<open>data-view#profileTransformation\<close> for every entry at index 1 or more.  Each entry
  that matches puts one copy of the triple's object at the back of the transform queue,
  in the order of the entries, and nothing else is queued.
\<close>

theorem relay_queues_object_per_matching_profile:
  assumes "subject_type st = RAPTOR_IDENTIFIER_TYPE_RESOURCE"
    and "predicate_type st = RAPTOR_IDENTIFIER_TYPE_RESOURCE"
    and "object_type st = RAPTOR_IDENTIFIER_TYPE_RESOURCE"
  shows "doc_transform_uris (raptor_grddl_relay_triples g st) =
     doc_transform_uris g @
       (case profile_uris g of
          [] \<Rightarrow> []
        | root # heads \<Rightarrow>
            (if root = Some (subject st) \<and> predicate st = namespace_transformation_uri g
             then [object st] else []) @
            map (\<lambda>_. object st)
              (filter (\<lambda>entry. entry = Some (subject st) \<and>
                         predicate st = profile_transformation_uri g) heads))"
  using assms by (simp add: relay_triples_closed relay_pushes_def Let_def split: option.split)

theorem relay_queues_object_per_matching_profile_witness:
  "doc_transform_uris
     (raptor_grddl_relay_triples example_engine
        (resource_triple ''http://ex/ns''
           ''http://www.w3.org/2003/g/data-view#namespaceTransformation'' ''http://ex/c.xsl'')) =
     [''http://ex/a.xsl'', ''http://ex/c.xsl'']
   \<and> doc_transform_uris
     (raptor_grddl_relay_triples example_engine
        (resource_triple ''http://ex/profile''
           ''http://www.w3.org/2003/g/data-view#profileTransformation'' ''http://ex/d.xsl'')) =
     [''http://ex/a.xsl'', ''http://ex/d.xsl'']
   \<and> doc_transform_uris
     (raptor_grddl_relay_triples example_engine
        (resource_triple ''http://ex/profile''
           ''http://www.w3.org/2003/g/data-view#namespaceTransformation'' ''http://ex/d.xsl'')) =
     [''http://ex/a.xsl'']"
  using
    relay_queues_object_per_matching_profile [of "resource_triple ''http://ex/ns''
           ''http://www.w3.org/2003/g/data-view#namespaceTransformation'' ''http://ex/c.xsl''"
      example_engine]
    relay_queues_object_per_matching_profile [of "resource_triple ''http://ex/profile''
           ''http://www.w3.org/2003/g/data-view#profileTransformation'' ''http://ex/d.xsl''"
      example_engine]
    relay_queues_object_per_matching_profile [of "resource_triple ''http://ex/profile''
           ''http://www.w3.org/2003/g/data-view#namespaceTransformation'' ''http://ex/d.xsl''"
      example_engine]
  by (simp add: resource_triple_def example_engine_def raptor_grddl_parse_init_def
      raptor_new_sequence_def empty_heap_def)

text \<open>
  C5.  When a user statement handler is saved in the engine, the relay filter calls it
  once for every statement it is given, with the saved user data and the statement as
  received, whether or not the statement matched a relay rule; for a sequence of
  statements the calls are made in the order of the sequence.
\<close>

theorem relay_forwards_every_statement_in_order:
  assumes "saved_statement_handler g = Some h"
  shows "handler_calls (raptor_grddl_relay_triples g st) =
           handler_calls g @ [(h, saved_user_data g, st)]
       \<and> handler_calls (relay_statements g sts) =
           handler_calls g @ map (\<lambda>st. (h, saved_user_data g, st)) sts"
  using assms by (simp add: relay_triples_calls relay_statements_calls)

theorem relay_forwards_every_statement_in_order_witness:
  "saved_statement_handler example_engine = Some 1
   \<and> handler_calls (relay_statements example_engine
        [resource_triple ''http://ex/ns''
           ''http://www.w3.org/2003/g/data-view#namespaceTransformation'' ''http://ex/c.xsl'',
         resource_triple ''http://ex/s'' ''http://ex/p'' ''http://ex/o'']) =
     [(1, 7, resource_triple ''http://ex/ns''
           ''http://www.w3.org/2003/g/data-view#namespaceTransformation'' ''http://ex/c.xsl''),
      (1, 7, resource_triple ''http://ex/s'' ''http://ex/p'' ''http://ex/o'')]"
proof -
  have h: "saved_statement_handler example_engine = Some 1"
    by (simp add: example_engine_def raptor_grddl_parse_init_def
      raptor_new_sequence_def empty_heap_def)
  from relay_forwards_every_statement_in_order [OF h, THEN conjunct2] h show ?thesis
    by (simp add: example_engine_def raptor_grddl_parse_init_def
      raptor_new_sequence_def empty_heap_def)
qed

section \<open>GRDDL: the transform queue and the head profile\<close>

text \<open>
  C1.  The claim is that the transform queue is drained completely.  The loop counts
  \<open>i\<close> up while each pass takes one entry off the queue, so it ends when \<open>i\<close> meets the
  shrinking size: with two transforms queued, both succeeding and neither producing a
  relayed transform, the loop returns 0 after the first, and the second is still in
  the queue, never applied.
\<close>

theorem drain_stops_with_transform_left:
  "apply_transforms_loop quiet_xslt 0 0 two_transforms_engine =
     Some (0, two_transforms_engine
                \<lparr>doc_transform_uris := [''http://ex/b.xsl''],
                 transforms_run := [''http://ex/a.xsl'']\<rparr>)"
  by (simp add: apply_transforms_loop.simps raptor_grddl_run_grddl_transform_uri_def
      quiet_xslt_def relay_statements_def two_transforms_engine_def raptor_grddl_parse_init_def
      raptor_new_sequence_def empty_heap_def)

text \<open>
  C2.  The claim is that the head-profile rule drops every token whose URI is
  \<open>http://www.w3.org/2003/g/data-view\<close>.  The comparison string of the code ends in an
  apostrophe, so that token is kept: for the profile attribute
  \<open>http://www.w3.org/2003/g/data-view http://ex/p\<close> both URIs are in the result.
\<close>

theorem head_profile_keeps_data_view_token:
  "raptor_grddl_run_xpath_match absolute_reference (Some ''http://ex/doc'')
     (Some head_profile_nodes) (MATCH_IS_VALUE_LIST OR MATCH_IS_PROFILE) =
     Inr (Some [data_view_profile, ''http://ex/p''])"
  by (simp add: raptor_grddl_run_xpath_match_def head_profile_nodes_def strchr_def
      value_list_token_def absolute_reference_def data_view_profile_def
      MATCH_IS_VALUE_LIST_def MATCH_IS_PROFILE_def Let_def)

section \<open>Registry: guessing a parser\<close>

lemma int32_wrap_in_range:
  "- (2 ^ 31) \<le> x \<Longrightarrow> x < 2 ^ 31 \<Longrightarrow> int32_wrap x = x"
  by (simp add: int32_wrap_def)

lemma recorded_score_le_10: "recorded_score buffer identifier suffix mime f \<le> 10"
  by (simp add: recorded_score_def Let_def)

lemma guess_loop_found:
  "find (\<lambda>f. mime_type_matches mime f \<or> uri_string_matches uri f) fs = Some f \<Longrightarrow>
   i + length fs \<le> MAX_PARSERS \<Longrightarrow>
   \<exists>scores'. guess_loop i fs uri mime buffer identifier suffix scores = Inr (Some f, scores')"
proof (induction fs arbitrary: i scores)
  case Nil
  then show ?case by simp
next
  case (Cons a fs)
  show ?case
  proof (cases "mime_type_matches mime a \<or> uri_string_matches uri a")
    case True
    with Cons.prems show ?thesis by auto
  next
    case False
    with Cons.prems have "find (\<lambda>f. mime_type_matches mime f \<or> uri_string_matches uri f) fs = Some f"
      and "Suc i + length fs \<le> MAX_PARSERS" and "i < MAX_PARSERS"
      by auto
    with Cons.IH [of "Suc i"] False show ?thesis by auto
  qed
qed

lemma guess_loop_scores:
  "find (\<lambda>f. mime_type_matches mime f \<or> uri_string_matches uri f) fs = None \<Longrightarrow>
   i + length fs \<le> MAX_PARSERS \<Longrightarrow>
   guess_loop i fs uri mime buffer identifier suffix scores =
     Inr (None, scores @
       map (\<lambda>f. \<lparr> ss_score = recorded_score buffer identifier suffix mime f, ss_factory = f \<rparr>) fs)"
proof (induction fs arbitrary: i scores)
  case Nil
  then show ?case by simp
next
  case (Cons a fs)
  from Cons.prems have no: "\<not> mime_type_matches mime a" "\<not> uri_string_matches uri a"
    and rest: "find (\<lambda>f. mime_type_matches mime f \<or> uri_string_matches uri f) fs = None"
    and len: "Suc i + length fs \<le> MAX_PARSERS" "i < MAX_PARSERS"
    by (auto split: if_splits)
  from Cons.IH [OF rest len(1)] no len(2) show ?case by simp
qed

lemma sorted_head_is_greatest:
  assumes sorts: "qsort_sorts qsort compare_syntax_score scores"
    and ne: "scores \<noteq> []"
    and range: "\<forall>s \<in> set scores. - (2 ^ 31) + 11 \<le> ss_score s \<and> ss_score s \<le> 10"
  obtains first rest where "qsort compare_syntax_score scores = first # rest"
    and "first \<in> set scores" and "\<forall>s \<in> set scores. ss_score s \<le> ss_score first"
proof -
  from sorts have same: "set (qsort compare_syntax_score scores) = set scores"
    and srt: "sorted_wrt (\<lambda>a b. compare_syntax_score a b \<le> 0) (qsort compare_syntax_score scores)"
    by (simp_all add: qsort_sorts_def)
  from same ne obtain first rest where fr: "qsort compare_syntax_score scores = first # rest"
    by (cases "qsort compare_syntax_score scores") auto
  with same have mem: "first \<in> set scores" by auto
  have "ss_score s \<le> ss_score first" if s: "s \<in> set scores" for s
  proof (cases "s = first")
    case True
    then show ?thesis by simp
  next
    case False
    with s same fr have "s \<in> set rest" by auto
    with srt fr have c: "compare_syntax_score first s \<le> 0" by auto
    from range s have bs: "- (2 ^ 31) + 11 \<le> ss_score s" "ss_score s \<le> 10" by blast+
    from range mem have bf: "- (2 ^ 31) + 11 \<le> ss_score first" "ss_score first \<le> 10" by blast+
    from bs bf have "- (2 ^ 31) \<le> ss_score s - ss_score first"
      and "ss_score s - ss_score first < 2 ^ 31"
      by simp_all
    then have "int32_wrap (ss_score s - ss_score first) = ss_score s - ss_score first"
      by (rule int32_wrap_in_range)
    with c show ?thesis by (simp add: compare_syntax_score_def)
  qed
  with fr mem show ?thesis using that by blast
qed

text \<open>
  C6, as the code has it.  With at most \<open>MAX_PARSERS\<close> factories registered,
  \<open>raptor_guess_parser_name\<close> returns the name of the first factory, in list order,
  whose declared MIME type equals the given MIME type or whose declared URI string
  equals the given URI: the two tests are made factory by factory, so a URI match
  earlier in the list wins over a MIME match later in it.  When no factory matches
  either way and at least one is registered, every factory gets its recognise-syntax
  score, recorded as at most 10 (\<open>-1\<close> without the operation); provided these scores are
  at least \<open>INT_MIN + 11\<close>, so that the comparison function does not overflow, and
  \<open>qsort\<close> sorts, the result is the name of a factory whose recorded score is the
  greatest when that score is not negative, and NULL otherwise.
\<close>

theorem guess_parser_name_first_match_else_best_score:
  assumes len: "length parsers \<le> MAX_PARSERS"
  shows
    "(find (\<lambda>f. mime_type_matches mime f \<or> uri_string_matches uri f) parsers = Some f \<longrightarrow>
        raptor_guess_parser_name qsort parsers uri mime buffer identifier =
          Inr (Some (pf_name f)))
     \<and> (find (\<lambda>f. mime_type_matches mime f \<or> uri_string_matches uri f) parsers = None
        \<and> parsers \<noteq> []
        \<and> (\<forall>g \<in> set parsers.
              - (2 ^ 31) + 11 \<le> recorded_score buffer identifier (guess_suffix identifier) mime g)
        \<and> qsort_sorts qsort compare_syntax_score
             (map (\<lambda>g. \<lparr> ss_score = recorded_score buffer identifier (guess_suffix identifier) mime g,
                          ss_factory = g \<rparr>) parsers) \<longrightarrow>
        (\<exists>best \<in> set parsers.
           (\<forall>g \<in> set parsers.
              recorded_score buffer identifier (guess_suffix identifier) mime g
                \<le> recorded_score buffer identifier (guess_suffix identifier) mime best)
           \<and> raptor_guess_parser_name qsort parsers uri mime buffer identifier =
               (if 0 \<le> recorded_score buffer identifier (guess_suffix identifier) mime best
                then Inr (Some (pf_name best)) else Inr None)))"
proof (intro conjI impI)
  assume "find (\<lambda>f. mime_type_matches mime f \<or> uri_string_matches uri f) parsers = Some f"
  from guess_loop_found [OF this, of 0 buffer "identifier" "guess_suffix identifier" "[]"] len
  show "raptor_guess_parser_name qsort parsers uri mime buffer identifier = Inr (Some (pf_name f))"
    by (auto simp: raptor_guess_parser_name_def)
next
  let ?rs = "recorded_score buffer identifier (guess_suffix identifier) mime"
  let ?scores = "map (\<lambda>g. \<lparr> ss_score = ?rs g, ss_factory = g \<rparr>) parsers"
  assume a: "find (\<lambda>f. mime_type_matches mime f \<or> uri_string_matches uri f) parsers = None
        \<and> parsers \<noteq> []
        \<and> (\<forall>g \<in> set parsers. - (2 ^ 31) + 11 \<le> ?rs g)
        \<and> qsort_sorts qsort compare_syntax_score ?scores"
  then have none: "find (\<lambda>f. mime_type_matches mime f \<or> uri_string_matches uri f) parsers = None"
    and ne: "?scores \<noteq> []"
    and low: "\<forall>g \<in> set parsers. - (2 ^ 31) + 11 \<le> ?rs g"
    and sorts: "qsort_sorts qsort compare_syntax_score ?scores"
    by simp_all
  from guess_loop_scores [OF none, of 0 buffer "identifier" "guess_suffix identifier" "[]"] len
  have loop: "guess_loop 0 parsers uri mime buffer identifier (guess_suffix identifier) [] =
      Inr (None, ?scores)"
    by simp
  from low have range: "\<forall>s \<in> set ?scores. - (2 ^ 31) + 11 \<le> ss_score s \<and> ss_score s \<le> 10"
    by (auto simp: recorded_score_le_10)
  from sorted_head_is_greatest [OF sorts ne range]
  obtain first rest where fr: "qsort compare_syntax_score ?scores = first # rest"
    and mem: "first \<in> set ?scores" and top: "\<forall>s \<in> set ?scores. ss_score s \<le> ss_score first"
    by blast
  from mem obtain best where best: "best \<in> set parsers"
    and first: "first = \<lparr> ss_score = ?rs best, ss_factory = best \<rparr>"
    by auto
  from top first have "\<forall>g \<in> set parsers. ?rs g \<le> ?rs best" by auto
  moreover from loop fr first
  have "raptor_guess_parser_name qsort parsers uri mime buffer identifier =
      (if 0 \<le> ?rs best then Inr (Some (pf_name best)) else Inr None)"
    by (simp add: raptor_guess_parser_name_def)
  ultimately show "\<exists>best \<in> set parsers.
           (\<forall>g \<in> set parsers. ?rs g \<le> ?rs best)
           \<and> raptor_guess_parser_name qsort parsers uri mime buffer identifier =
               (if 0 \<le> ?rs best then Inr (Some (pf_name best)) else Inr None)"
    using best by blast
qed

text \<open>
  The claim gives the MIME type precedence over the whole list.  With a factory that
  declares the URI in front of one that declares the MIME type, the code returns the
  first, the claim's first factory with an equal MIME type is the second.
\<close>

theorem guess_parser_name_uri_match_before_mime_match:
  "raptor_guess_parser_name insertion_qsort uri_then_mime_parsers
     (Some ''http://ex/syntax'') (Some ''text/x-ex'') None None = Inr (Some ''by-uri'')
   \<and> map_option pf_name
       (find (\<lambda>f. pf_mime_type f = Some ''text/x-ex'') uri_then_mime_parsers) = Some ''by-mime''"
  by (simp add: raptor_guess_parser_name_def uri_then_mime_parsers_def guess_suffix_def
      mime_type_matches_def uri_string_matches_def)

theorem guess_parser_name_first_match_else_best_score_witness:
  "raptor_guess_parser_name insertion_qsort uri_then_mime_parsers
     None (Some ''text/x-ex'') None None = Inr (Some ''by-mime'')
   \<and> raptor_guess_parser_name insertion_qsort scoring_parsers
     None (Some ''text/x-ex'') None (Some ''doc.XHTML'') = Inr (Some ''high'')"
proof -
  have l1: "length uri_then_mime_parsers \<le> MAX_PARSERS"
    and l2: "length scoring_parsers \<le> MAX_PARSERS"
    by (simp_all add: uri_then_mime_parsers_def scoring_parsers_def MAX_PARSERS_def)
  have f1: "find (\<lambda>f. mime_type_matches (Some ''text/x-ex'') f \<or> uri_string_matches None f)
      uri_then_mime_parsers = Some (uri_then_mime_parsers ! 1)"
    by (simp add: uri_then_mime_parsers_def mime_type_matches_def uri_string_matches_def)
  from guess_parser_name_first_match_else_best_score [OF l1, THEN conjunct1, rule_format, OF f1]
  have one: "raptor_guess_parser_name insertion_qsort uri_then_mime_parsers
     None (Some ''text/x-ex'') None None = Inr (Some ''by-mime'')"
    by (simp add: uri_then_mime_parsers_def)
  have pre: "find (\<lambda>f. mime_type_matches (Some ''text/x-ex'') f \<or> uri_string_matches None f)
          scoring_parsers = None
      \<and> scoring_parsers \<noteq> []
      \<and> (\<forall>g \<in> set scoring_parsers.
            - (2 ^ 31) + 11 \<le> recorded_score None (Some ''doc.XHTML'')
                (guess_suffix (Some ''doc.XHTML'')) (Some ''text/x-ex'') g)
      \<and> qsort_sorts insertion_qsort compare_syntax_score
           (map (\<lambda>g. \<lparr> ss_score = recorded_score None (Some ''doc.XHTML'')
                          (guess_suffix (Some ''doc.XHTML'')) (Some ''text/x-ex'') g,
                        ss_factory = g \<rparr>) scoring_parsers)"
    by (simp add: scoring_parsers_def mime_type_matches_def uri_string_matches_def
        recorded_score_def qsort_sorts_def insertion_qsort_def compare_syntax_score_def
        int32_wrap_def insert_commute)
  from guess_parser_name_first_match_else_best_score [OF l2, THEN conjunct2, rule_format, OF pre]
  obtain best where b: "best \<in> set scoring_parsers"
    and top: "\<forall>g \<in> set scoring_parsers.
        recorded_score None (Some ''doc.XHTML'') (guess_suffix (Some ''doc.XHTML''))
            (Some ''text/x-ex'') g
          \<le> recorded_score None (Some ''doc.XHTML'') (guess_suffix (Some ''doc.XHTML''))
            (Some ''text/x-ex'') best"
    and res: "raptor_guess_parser_name insertion_qsort scoring_parsers None (Some ''text/x-ex'')
        None (Some ''doc.XHTML'') =
      (if 0 \<le> recorded_score None (Some ''doc.XHTML'') (guess_suffix (Some ''doc.XHTML''))
            (Some ''text/x-ex'') best
       then Inr (Some (pf_name best)) else Inr None)"
    by blast
  from b top have "pf_name best = ''high''
      \<and> recorded_score None (Some ''doc.XHTML'') (guess_suffix (Some ''doc.XHTML''))
            (Some ''text/x-ex'') best = 10"
    by (auto simp: scoring_parsers_def recorded_score_def)
  with res have two: "raptor_guess_parser_name insertion_qsort scoring_parsers
     None (Some ''text/x-ex'') None (Some ''doc.XHTML'') = Inr (Some ''high'')"
    by simp
  from one two show ?thesis by simp
qed

section \<open>Qualified names: the expanded URI\<close>

lemma strchr_first:
  "c \<notin> set p \<Longrightarrow> strchr (p @ c # l) c = Some (length p)"
proof -
  assume "c \<notin> set p"
  then have "takeWhile (\<lambda>x. x \<noteq> c) (p @ c # l) = p"
    by (induction p) auto
  then show ?thesis by (simp add: strchr_def)
qed

text \<open>
  C8, as the code has it.  For a namespace stack and a name \<open>p:l\<close>, split at its
  first colon, whose prefix \<open>p\<close> resolves to a namespace with URI \<open>U\<close> and whose local
  part \<open>l\<close> is not empty, \<open>raptor_new_qname\<close> gives a qname with that namespace, the
  local name \<open>l\<close> and the expanded URI \<open>U\<close> followed by \<open>l\<close>.  In general, whenever the
  qname it gives for any name has a namespace with a URI and a non-empty local name,
  its expanded URI is the namespace URI followed by the local name.
\<close>

theorem new_qname_expands_known_prefix:
  "(CHR '':'' \<notin> set p \<and> l \<noteq> []
      \<and> raptor_namespaces_find_namespace nstack p = Some ns \<and> ns_uri ns = Some U \<longrightarrow>
      qn_nspace (fst (raptor_new_qname nstack (p @ '':'' @ l) val)) = Some ns
      \<and> qn_local_name (fst (raptor_new_qname nstack (p @ '':'' @ l) val)) = l
      \<and> qn_uri (fst (raptor_new_qname nstack (p @ '':'' @ l) val)) = Some (U @ l)
      \<and> snd (raptor_new_qname nstack (p @ '':'' @ l) val) = [])
   \<and> (qn_nspace (fst (raptor_new_qname nstack nm val)) = Some ns'
      \<and> ns_uri ns' = Some U'
      \<and> qn_local_name (fst (raptor_new_qname nstack nm val)) \<noteq> [] \<longrightarrow>
      qn_uri (fst (raptor_new_qname nstack nm val)) =
        Some (U' @ qn_local_name (fst (raptor_new_qname nstack nm val))))"
proof (intro conjI impI)
  assume a: "CHR '':'' \<notin> set p \<and> l \<noteq> []
      \<and> raptor_namespaces_find_namespace nstack p = Some ns \<and> ns_uri ns = Some U"
  then have s: "strchr (p @ '':'' @ l) CHR '':'' = Some (length p)"
    using strchr_first [of "CHR '':''" p l] by simp
  from a s show "qn_nspace (fst (raptor_new_qname nstack (p @ '':'' @ l) val)) = Some ns"
    and "qn_local_name (fst (raptor_new_qname nstack (p @ '':'' @ l) val)) = l"
    and "qn_uri (fst (raptor_new_qname nstack (p @ '':'' @ l) val)) = Some (U @ l)"
    and "snd (raptor_new_qname nstack (p @ '':'' @ l) val) = []"
    by (simp_all add: raptor_new_qname_def Let_def qname_expanded_uri_def
        raptor_new_uri_from_uri_local_name_def)
next
  assume "qn_nspace (fst (raptor_new_qname nstack nm val)) = Some ns'
      \<and> ns_uri ns' = Some U'
      \<and> qn_local_name (fst (raptor_new_qname nstack nm val)) \<noteq> []"
  then show "qn_uri (fst (raptor_new_qname nstack nm val)) =
        Some (U' @ qn_local_name (fst (raptor_new_qname nstack nm val)))"
    by (auto simp: raptor_new_qname_def Let_def qname_expanded_uri_def
        raptor_new_uri_from_uri_local_name_def split: option.splits)
qed

text \<open>
  The claim holds the expanded URI of every \<open>p:l\<close> with a known prefix to be \<open>U\<close>
  followed by \<open>l\<close>.  For the name \<open>p:\<close>, whose local part is empty, the prefix resolves
  and the qname has the namespace, but no expanded URI at all.
\<close>

theorem new_qname_empty_local_name_has_no_uri:
  "raptor_namespaces_find_namespace example_nstack ''p'' =
     Some \<lparr> ns_prefix = ''p'', ns_uri = Some ''http://ex/ns#'', ns_depth = 1 \<rparr>
   \<and> qn_nspace (fst (raptor_new_qname example_nstack ''p:'' None)) =
     Some \<lparr> ns_prefix = ''p'', ns_uri = Some ''http://ex/ns#'', ns_depth = 1 \<rparr>
   \<and> qn_uri (fst (raptor_new_qname example_nstack ''p:'' None)) = None
   \<and> qn_uri (fst (raptor_new_qname example_nstack ''p:'' None)) \<noteq> Some (''http://ex/ns#'' @ [])"
  by (simp add: raptor_new_qname_def example_nstack_def raptor_namespaces_find_namespace_def
      strchr_def Let_def qname_expanded_uri_def)

theorem new_qname_expands_known_prefix_witness:
  "qn_nspace (fst (raptor_new_qname example_nstack ''p:title'' None)) =
     Some \<lparr> ns_prefix = ''p'', ns_uri = Some ''http://ex/ns#'', ns_depth = 1 \<rparr>
   \<and> qn_uri (fst (raptor_new_qname example_nstack ''p:title'' None)) = Some ''http://ex/ns#title''
   \<and> qn_uri (fst (raptor_new_qname example_nstack ''item'' None)) = Some ''http://ex/default#item''"
proof -
  let ?ns = "\<lparr> ns_prefix = ''p'', ns_uri = Some ''http://ex/ns#'', ns_depth = 1 \<rparr>"
  let ?d = "\<lparr> ns_prefix = [], ns_uri = Some ''http://ex/default#'', ns_depth = 0 \<rparr>"
  have pre: "CHR '':'' \<notin> set ''p'' \<and> ''title'' \<noteq> []
      \<and> raptor_namespaces_find_namespace example_nstack ''p'' = Some ?ns
      \<and> ns_uri ?ns = Some ''http://ex/ns#''"
    by (simp add: example_nstack_def raptor_namespaces_find_namespace_def)
  have pre2: "qn_nspace (fst (raptor_new_qname example_nstack ''item'' None)) = Some ?d
      \<and> ns_uri ?d = Some ''http://ex/default#''
      \<and> qn_local_name (fst (raptor_new_qname example_nstack ''item'' None)) \<noteq> []"
    by (simp add: raptor_new_qname_def example_nstack_def raptor_namespaces_find_namespace_def
        raptor_namespaces_get_default_namespace_def strchr_def Let_def)
  have loc: "qn_local_name (fst (raptor_new_qname example_nstack ''item'' None)) = ''item''"
    by (simp add: raptor_new_qname_def strchr_def Let_def)
  from new_qname_expands_known_prefix
         [of "''p''" "''title''" example_nstack ?ns "''http://ex/ns#''" None,
          THEN conjunct1, rule_format, OF pre]
       new_qname_expands_known_prefix
         [of "''p''" "''title''" example_nstack ?ns "''http://ex/ns#''" None
             "''item''" ?d "''http://ex/default#''",
          THEN conjunct2, rule_format, OF pre2]
       loc
  show ?thesis by simp
qed

section \<open>The prefixed-name check: return values\<close>

lemma string_codepoints_Nil [simp]: "string_codepoints U [] = Some []"
  by (subst string_codepoints.simps) simp










lemmas name_check_evaluation =
  raptor_prefixed_name_check_def check_bits_of_def
  RAPTOR_PREFIXED_NAME_CHECK_QNAME_LOCAL_def RAPTOR_PREFIXED_NAME_CHECK_VARNAME_def
  RAPTOR_PREFIXED_NAME_CHECK_QNAME_PREFIX_def RAPTOR_PREFIXED_NAME_CHECK_BLANK_def
  prefixed_name_check_loop.simps name_check_char_def ascii_unicode_def uc_def escapable_def
  ALLOW_09_FIRST_def ALLOW_DOT_REST_def ALLOW_MINUS_REST_def ALLOW_HEX_def ALLOW_COLON_def
  ALLOW_EXTRA_UNICODE_def ALLOW_BS_ESCAPE_def ALLOW_UL_FIRST_def Let_def


text \<open>
  No test of the loop reads \<open>ALLOW_BS_ESCAPE\<close>: under the variable check, which does not
  have the flag, a backslash followed by an underscore is let through at the start of a
  name.
\<close>

theorem backslash_escape_passes_without_flag:
  "raptor_prefixed_name_check ascii_unicode [CHR 0x5C, CHR ''_'', CHR ''a'']
     RAPTOR_PREFIXED_NAME_CHECK_VARNAME = Some 1
   \<and> (ALLOW_UL_FIRST OR ALLOW_09_FIRST OR ALLOW_EXTRA_UNICODE) AND ALLOW_BS_ESCAPE = 0"
  by (simp add: name_check_evaluation)


text \<open>
  C9.  Under the QName-local check the string \<open>a\\<close>, which ends in a backslash with
  nothing after it, is found valid: the loop leaves \<open>escaping\<close> set at the end of the
  string and nothing after the loop reads it.  This holds for every decoder that reads
  the two ASCII bytes as one code point each and every table that has \<open>a\<close> as a name
  start character.
\<close>

theorem trailing_backslash_is_accepted:
  assumes "utf8_string_get_char U [CHR ''a'', CHR 0x5C] = (1, uc CHR ''a'')"
    and "utf8_string_get_char U [CHR 0x5C] = (1, uc (CHR 0x5C))"
    and "uc CHR ''a'' \<le> max_codepoint U"
    and "is_xml11_namestartchar U (uc CHR ''a'')"
  shows "raptor_prefixed_name_check U [CHR ''a'', CHR 0x5C]
           RAPTOR_PREFIXED_NAME_CHECK_QNAME_LOCAL = Some 1"
proof -
  from assms(3) have m: "\<not> uc CHR ''a'' > max_codepoint U" "\<not> uc (CHR 0x5C) > max_codepoint U"
    by (simp_all add: uc_def)
  have first: "name_check_char U check_bits 0 (uc CHR ''a'') False = (True, False)"
    for check_bits
    using assms(4) by (simp add: name_check_char_def uc_def)
  have second: "name_check_char U check_bits (Suc 0) (uc (CHR 0x5C)) False = (True, True)"
    for check_bits
    by (simp add: name_check_char_def)
  have "prefixed_name_check_loop U check_bits 0 [CHR ''a'', CHR 0x5C] 0 False = Some 1"
    for check_bits
    apply (subst prefixed_name_check_loop.simps)
    apply (simp add: assms(1) m first Let_def)
    apply (subst prefixed_name_check_loop.simps)
    apply (simp add: assms(2) m second Let_def)
    apply (subst prefixed_name_check_loop.simps)
    apply (simp add: uc_def)
    done
  then show ?thesis
    by (simp add: raptor_prefixed_name_check_def check_bits_of_def
        RAPTOR_PREFIXED_NAME_CHECK_QNAME_LOCAL_def RAPTOR_PREFIXED_NAME_CHECK_VARNAME_def
        RAPTOR_PREFIXED_NAME_CHECK_QNAME_PREFIX_def)
qed

theorem trailing_backslash_is_accepted_witness:
  "raptor_prefixed_name_check ascii_unicode [CHR ''a'', CHR 0x5C]
     RAPTOR_PREFIXED_NAME_CHECK_QNAME_LOCAL = Some 1"
proof -
  have a: "utf8_string_get_char ascii_unicode [CHR ''a'', CHR 0x5C] = (1, uc CHR ''a'')"
    and b: "utf8_string_get_char ascii_unicode [CHR 0x5C] = (1, uc (CHR 0x5C))"
    and c: "uc CHR ''a'' \<le> max_codepoint ascii_unicode"
    and d: "is_xml11_namestartchar ascii_unicode (uc CHR ''a'')"
    by (simp_all add: ascii_unicode_def uc_def)
  from trailing_backslash_is_accepted [OF a b c d] show ?thesis .
qed

section \<open>GRDDL: the visited URIs and the recursion\<close>

lemma rp_set_base_uri [simp]:
  "rp_base_uri (set_base_uri b p) = b"
  "rp_failed (set_base_uri b p) = rp_failed p"
  "rp_user_data (set_base_uri b p) = rp_user_data p"
  "rp_statement_handler (set_base_uri b p) = rp_statement_handler p"
  "rp_ctxt (set_base_uri b p) = rp_ctxt p"
  "rp_context (set_base_uri b p) = rp_context p"
  "rp_internal_parser (set_base_uri b p) = rp_internal_parser p"
  by (simp_all add: set_base_uri_def)

lemma rp_set_statement_handler [simp]:
  "rp_base_uri (set_statement_handler u h p) = rp_base_uri p"
  "rp_failed (set_statement_handler u h p) = rp_failed p"
  "rp_user_data (set_statement_handler u h p) = u"
  "rp_statement_handler (set_statement_handler u h p) = h"
  "rp_ctxt (set_statement_handler u h p) = rp_ctxt p"
  "rp_context (set_statement_handler u h p) = rp_context p"
  "rp_internal_parser (set_statement_handler u h p) = rp_internal_parser p"
  by (simp_all add: set_statement_handler_def)

lemma rp_set_ctxt [simp]:
  "rp_base_uri (set_ctxt c p) = rp_base_uri p"
  "rp_failed (set_ctxt c p) = rp_failed p"
  "rp_user_data (set_ctxt c p) = rp_user_data p"
  "rp_statement_handler (set_ctxt c p) = rp_statement_handler p"
  "rp_ctxt (set_ctxt c p) = c"
  "rp_context (set_ctxt c p) = rp_context p"
  "rp_internal_parser (set_ctxt c p) = rp_internal_parser p"
  by (simp_all add: set_ctxt_def)

lemma rp_map_context [simp]:
  "rp_base_uri (map_context f p) = rp_base_uri p"
  "rp_failed (map_context f p) = rp_failed p"
  "rp_user_data (map_context f p) = rp_user_data p"
  "rp_statement_handler (map_context f p) = rp_statement_handler p"
  "rp_ctxt (map_context f p) = rp_ctxt p"
  "rp_context (map_context f p) = f (rp_context p)"
  "rp_internal_parser (map_context f p) = rp_internal_parser p"
  by (simp_all add: map_context_def)

lemma rp_set_internal_parser [simp]:
  "rp_base_uri (set_internal_parser i p) = rp_base_uri p"
  "rp_failed (set_internal_parser i p) = rp_failed p"
  "rp_user_data (set_internal_parser i p) = rp_user_data p"
  "rp_statement_handler (set_internal_parser i p) = rp_statement_handler p"
  "rp_ctxt (set_internal_parser i p) = rp_ctxt p"
  "rp_context (set_internal_parser i p) = rp_context p"
  "rp_internal_parser (set_internal_parser i p) = i"
  by (simp_all add: set_internal_parser_def)


lemma set_internal_parser_twice [simp]:
  "set_internal_parser i (set_internal_parser j p) = set_internal_parser i p"
  by (simp add: set_internal_parser_def)


lemma seen_uri_loop_iff: "seen_uri_loop uri seq \<longleftrightarrow> uri \<in> set seq"
  by (induction seq) auto

lemma seen_uri_alive:
  "sequences heap (visited_uris g) = Some vs \<Longrightarrow>
   raptor_grddl_seen_uri heap g uri = Inr (uri \<in> set vs)"
  by (simp add: raptor_grddl_seen_uri_def seen_uri_loop_iff)

lemma done_uri_alive:
  "sequences heap (visited_uris g) = Some vs \<Longrightarrow>
   raptor_grddl_done_uri heap g uri =
     Inr (if uri \<in> set vs then heap
          else heap\<lparr> sequences := (sequences heap)(visited_uris g := Some (vs @ [uri])) \<rparr>)"
  by (simp add: raptor_grddl_done_uri_def seen_uri_alive)









lemma engine_step_profiles:
  "engine_inv a p \<Longrightarrow> engine_step a p (map_context (\<lambda>g. g\<lparr>profile_uris := q\<rparr>) p)"
  by (simp add: engine_step_def engine_inv_def)

lemma engine_step_root:
  "engine_inv a p \<Longrightarrow> engine_step a p (map_context (\<lambda>g. g\<lparr>root_ns_uri := r\<rparr>) p)"
  by (simp add: engine_step_def engine_inv_def)











lemma run_recursive_fresh_eq:
  assumes va: "visited_uris (rp_context p) = a"
    and nm: "internal_parser_name (rp_context p) = None"
    and none: "rp_internal_parser p = No_parser"
    and alive: "sequences heap a = Some vs" and lt: "a < next_sequence heap"
    and unseen: "uri \<notin> set vs"
  shows "raptor_grddl_run_recursive chunk web (p, heap) uri =
     (let pm = map_context (\<lambda>g. g\<lparr> internal_parser_name := Some ''grddl'',
                                     saved_user_data := rp_user_data p,
                                     saved_statement_handler := rp_statement_handler p \<rparr>) p;
          g = (fst (raptor_grddl_parse_init heap))
                \<lparr> visited_uris := a, grddl_depth := grddl_depth (rp_context p) + 1 \<rparr>;
          c = Raptor_parser (Some uri) False (grddl_depth (rp_context p))
                (Some relay_triples_handler) None g No_parser;
          heap2 = heap\<lparr> next_sequence := next_sequence heap + 1,
                        sequences := (sequences heap)(next_sequence heap := None) \<rparr>
      in case web uri of
           None \<Rightarrow> Some (Inr (1, set_internal_parser (Grddl_parser c) pm, heap2))
         | Some fetched \<Rightarrow>
             (case chunk (set_ctxt (Some fetched) c, heap2) of
                None \<Rightarrow> None
              | Some (Inl f) \<Rightarrow> Some (Inl f)
              | Some (Inr (r, inner', heap3)) \<Rightarrow>
                  Some (Inr (0,
                    map_context
                      (\<lambda>parent. relay_statements parent (relayed_statements g (rp_context inner')))
                      (set_internal_parser (Grddl_parser inner') pm),
                    heap3))))"
proof -
  let ?fresh = "fst (raptor_grddl_parse_init heap)"
  let ?heap1 = "snd (raptor_grddl_parse_init heap)"
  let ?pm = "map_context (\<lambda>g. g\<lparr> internal_parser_name := Some ''grddl'',
                                 saved_user_data := rp_user_data p,
                                 saved_statement_handler := rp_statement_handler p \<rparr>) p"
  let ?q1 = "Raptor_parser None False (grddl_depth (rp_context p)) (Some relay_triples_handler)
      None ?fresh No_parser"
  let ?p1 = "set_internal_parser (Grddl_parser ?q1) ?pm"
  let ?g = "?fresh\<lparr> visited_uris := a, grddl_depth := grddl_depth (rp_context p) + 1 \<rparr>"
  let ?heap2 = "heap\<lparr> next_sequence := next_sequence heap + 1,
                      sequences := (sequences heap)(next_sequence heap := None) \<rparr>"
  have fresh: "visited_uris ?fresh = next_sequence heap"
    and h1: "sequences ?heap1 = (sequences heap)(next_sequence heap := Some [])"
    "next_sequence ?heap1 = next_sequence heap + 1"
    by (simp_all add: raptor_grddl_parse_init_def raptor_new_sequence_def)
  have seen: "raptor_grddl_seen_uri heap (rp_context p) uri = Inr False"
    using alive va unseen by (simp add: seen_uri_alive)
  have ens: "raptor_grddl_ensure_internal_parser heap p ''grddl'' True = Inr (?p1, ?heap1)"
    using nm none
    by (simp add: raptor_grddl_ensure_internal_parser_def raptor_new_parser_def
        raptor_new_parser_grddl_def inner_set_statement_handler_def case_prod_beta
        parser_pointer_def set_statement_handler_def)
  have "?heap1\<lparr> sequences := (sequences ?heap1)(next_sequence heap := None) \<rparr> = ?heap2"
    by (simp add: raptor_grddl_parse_init_def raptor_new_sequence_def)
  then have add: "raptor_grddl_parser_add_parent ?heap1 (rp_context ?q1) (rp_context ?p1) =
      Inr (?g, ?heap2)"
    using va by (simp add: raptor_grddl_parser_add_parent_def raptor_free_sequence_def fresh h1)
  from seen ens add show ?thesis
    by (simp add: raptor_grddl_run_recursive_def Let_def set_base_uri_def map_context_def
        cong: option.case_cong sum.case_cong)
qed












lemma no_xpath_match:
  "raptor_grddl_run_xpath_match resolve base None flags = Inr None"
  by (simp add: raptor_grddl_run_xpath_match_def)




section \<open>GRDDL: the second recursive entry of an engine\<close>

lemma parse_chunk_plain_document:
  assumes base: "rp_base_uri c = Some b" and ctxt: "rp_ctxt c = Some plain_document"
    and alive: "sequences h (visited_uris (rp_context c)) = Some vs"
    and queue: "doc_transform_uris (rp_context c) = []" and ok: "\<not> rp_failed c"
  shows "raptor_grddl_parse_chunk (Suc k) resolve web sheets (c, h) =
     Some (Inr (0,
       map_context (\<lambda>g. g\<lparr> profile_uris := profile_uris g @ [root_ns_uri g] \<rparr>) c,
       (if b \<in> set vs then h
        else h\<lparr> sequences := (sequences h)(visited_uris (rp_context c) := Some (vs @ [b])) \<rparr>)))"
proof -
  let ?c' = "map_context (\<lambda>g. g\<lparr> profile_uris := profile_uris g @ [root_ns_uri g] \<rparr>) c"
  have table: "xpath_table_loop resolve
      \<lparr> doc_root_ns = Some ''http://www.w3.org/1999/xhtml'', doc_xpath = (\<lambda>xpath. None) \<rparr>
      match_table ?c' = Inr ?c'"
    using ok by (simp add: match_table_def no_xpath_match)
  have loop: "grddl_transforms_loop sheet 0 0 (?c', h') = Some (Inr (0, ?c', h'))" for sheet h'
    using queue by (subst grddl_transforms_loop.simps) simp
  from base ctxt alive ok show ?thesis
    by (simp add: done_uri_alive plain_document_def grddl_parse_document_def
        grddl_root_namespace_def grddl_head_profiles_def grddl_namespace_uris_ignore_list_def
        no_xpath_match table loop)
qed

lemma run_recursive_again:
  assumes va: "visited_uris (rp_context p) = a"
    and nm: "internal_parser_name (rp_context p) = Some ''grddl''"
    and inner: "rp_internal_parser p = Grddl_parser q"
    and qa: "visited_uris (rp_context q) = a"
    and alive: "sequences heap a = Some vs"
    and unseen: "uri \<notin> set vs"
    and web: "web uri = Some fetched"
  shows "raptor_grddl_run_recursive
           (\<lambda>i. raptor_grddl_parse_chunk (Suc m) resolve web' sheets i) web (p, heap) uri =
         Some (Inl Use_after_free)"
proof -
  let ?q' = "set_statement_handler (parser_pointer p) (Some relay_triples_handler) q"
  let ?p1 = "set_internal_parser (Grddl_parser ?q') p"
  let ?g = "(rp_context q)\<lparr> visited_uris := a, grddl_depth := grddl_depth (rp_context p) + 1 \<rparr>"
  let ?heap2 = "heap\<lparr> sequences := (sequences heap)(a := None) \<rparr>"
  let ?c = "set_ctxt (case rp_ctxt q of None \<Rightarrow> Some fetched | Some old \<Rightarrow> Some old)
      (set_base_uri (Some uri) (map_context (\<lambda>_. ?g) ?q'))"
  have seen: "raptor_grddl_seen_uri heap (rp_context p) uri = Inr False"
    using alive va unseen by (simp add: seen_uri_alive)
  have ens: "raptor_grddl_ensure_internal_parser heap p ''grddl'' True = Inr (?p1, heap)"
    using nm inner
    by (simp add: raptor_grddl_ensure_internal_parser_def inner_set_statement_handler_def)
  have add: "raptor_grddl_parser_add_parent heap (rp_context ?q') (rp_context ?p1) =
      Inr (?g, ?heap2)"
    using va qa alive by (simp add: raptor_grddl_parser_add_parent_def raptor_free_sequence_def)
  have "raptor_grddl_done_uri ?heap2 (rp_context ?c) uri = Inl Use_after_free"
    by (simp add: raptor_grddl_done_uri_def raptor_grddl_seen_uri_def)
  then have dead: "raptor_grddl_parse_chunk (Suc m) resolve web' sheets (?c, ?heap2) =
      Some (Inl Use_after_free)"
    by simp
  from seen ens add web dead show ?thesis
    by (simp add: raptor_grddl_run_recursive_def del: raptor_grddl_parse_chunk.simps)
qed

lemma two_profiles_match:
  "raptor_grddl_run_xpath_match absolute_reference (Some ''http://ex/doc'')
     (Some [XML_ATTRIBUTE_NODE (Some ''http://ex/p1 http://ex/p2'') None])
     (MATCH_IS_VALUE_LIST OR MATCH_IS_PROFILE) = Inr (Some [''http://ex/p1'', ''http://ex/p2''])"
  by (simp add: raptor_grddl_run_xpath_match_def strchr_def value_list_token_def
      absolute_reference_def MATCH_IS_VALUE_LIST_def MATCH_IS_PROFILE_def Let_def)

text \<open>
  A document with two head profiles, both fetched for the first time.  The second
  recursive entry uses the inner parser of the first again;
  \<open>raptor_grddl_parser_add_parent\<close> frees the sequence the inner parser points to,
  which since the first entry is the shared sequence of visited URIs, and the inner
  parser's terminal chunk reads it.
\<close>

theorem second_recursive_entry_frees_visited_uris:
  "raptor_grddl_parse (Suc (Suc k)) absolute_reference two_profiles_web no_stylesheets
     user_data handler ''http://ex/doc'' two_profiles_document = Some (Inl Use_after_free)"
proof -
  let ?chunk = "\<lambda>inner. raptor_grddl_parse_chunk (Suc k) absolute_reference two_profiles_web
      no_stylesheets inner"
  let ?run = "raptor_grddl_run_recursive ?chunk two_profiles_web"
  let ?doc = "\<lparr> doc_root_ns = Some ''http://www.w3.org/1999/xhtml'',
        doc_xpath = (\<lambda>xpath. if xpath = head_profile_xpath
                         then Some [XML_ATTRIBUTE_NODE (Some ''http://ex/p1 http://ex/p2'') None]
                         else None) \<rparr>"
  let ?fresh = "fst (raptor_grddl_parse_init empty_heap)"
  let ?heap0 = "snd (raptor_grddl_parse_init empty_heap)"
  let ?p0 = "set_ctxt (Some two_profiles_document) (set_base_uri (Some ''http://ex/doc'')
      (set_statement_handler user_data handler
         (Raptor_parser None False 0 None None ?fresh No_parser)))"
  let ?heap1 = "?heap0\<lparr> sequences := (sequences ?heap0)(0 := Some [''http://ex/doc'']) \<rparr>"
  let ?p1 = "map_context (\<lambda>g. g\<lparr> profile_uris := profile_uris g @ [root_ns_uri g] \<rparr>) ?p0"
  have f0: "visited_uris ?fresh = 0" "internal_parser_name ?fresh = None"
    and h0: "sequences ?heap0 0 = Some []" "next_sequence ?heap0 = 1"
    by (simp_all add: raptor_grddl_parse_init_def raptor_new_sequence_def empty_heap_def)
  have done0: "raptor_grddl_done_uri ?heap0 (rp_context ?p0) ''http://ex/doc'' = Inr ?heap1"
    using done_uri_alive [of ?heap0 "rp_context ?p0" "[]" "''http://ex/doc''"] f0 h0 by simp
  have root: "grddl_root_namespace ?run absolute_reference ''http://ex/doc'' ?doc (?p0, ?heap1) =
      Some (Inr (0, ?p1, ?heap1))"
    by (simp add: grddl_root_namespace_def grddl_namespace_uris_ignore_list_def)
  have va1: "visited_uris (rp_context ?p1) = 0"
    and nm1: "internal_parser_name (rp_context ?p1) = None"
    and none1: "rp_internal_parser ?p1 = No_parser"
    using f0 by simp_all
  have lt1: "0 < next_sequence ?heap1" using h0 by simp
  have alive1: "sequences ?heap1 0 = Some [''http://ex/doc'']" by simp
  let ?pm = "map_context (\<lambda>g. g\<lparr> internal_parser_name := Some ''grddl'',
                                 saved_user_data := rp_user_data ?p1,
                                 saved_statement_handler := rp_statement_handler ?p1 \<rparr>) ?p1"
  let ?gc = "(fst (raptor_grddl_parse_init ?heap1))
      \<lparr> visited_uris := 0, grddl_depth := grddl_depth (rp_context ?p1) + 1 \<rparr>"
  let ?heap2 = "?heap1\<lparr> next_sequence := next_sequence ?heap1 + 1,
      sequences := (sequences ?heap1)(next_sequence ?heap1 := None) \<rparr>"
  let ?c = "set_ctxt (Some plain_document)
      (Raptor_parser (Some ''http://ex/p1'') False (grddl_depth (rp_context ?p1))
         (Some relay_triples_handler) None ?gc No_parser)"
  let ?c' = "map_context (\<lambda>g. g\<lparr> profile_uris := profile_uris g @ [root_ns_uri g] \<rparr>) ?c"
  let ?heap3 = "?heap2\<lparr> sequences := (sequences ?heap2)
      (0 := Some [''http://ex/doc'', ''http://ex/p1'']) \<rparr>"
  let ?p2 = "map_context (\<lambda>parent. relay_statements parent
        (relayed_statements ?gc (rp_context ?c')))
      (set_internal_parser (Grddl_parser ?c') ?pm)"
  have alive2: "sequences ?heap2 (visited_uris (rp_context ?c)) = Some [''http://ex/doc'']"
    using h0 by simp
  have gc: "doc_transform_uris ?gc = []" "handler_calls ?gc = []"
    by (simp_all add: raptor_grddl_parse_init_def raptor_new_sequence_def)
  have inner: "?chunk (?c, ?heap2) = Some (Inr (0, ?c', ?heap3))"
    using parse_chunk_plain_document [of ?c "''http://ex/p1''" ?heap2 "[''http://ex/doc'']" k
        absolute_reference two_profiles_web no_stylesheets] alive2 gc
    by simp
  have first: "?run (?p1, ?heap1) ''http://ex/p1'' = Some (Inr (0, ?p2, ?heap3))"
    using run_recursive_fresh_eq [OF va1 nm1 none1 alive1 lt1, of "''http://ex/p1''"
        ?chunk two_profiles_web] inner
    by (simp add: two_profiles_web_def Let_def del: raptor_grddl_parse_chunk.simps)
  have second: "?run (?p2, ?heap3) ''http://ex/p2'' = Some (Inl Use_after_free)"
  proof (rule run_recursive_again [where a = 0 and q = ?c'
        and vs = "[''http://ex/doc'', ''http://ex/p1'']" and fetched = plain_document])
    show "visited_uris (rp_context ?p2) = 0"
      using f0
      by (simp add: relayed_statements_def relay_statements_def raptor_grddl_parse_init_def
          raptor_new_sequence_def)
    show "internal_parser_name (rp_context ?p2) = Some ''grddl''"
      by (simp add: relayed_statements_def relay_statements_def raptor_grddl_parse_init_def
          raptor_new_sequence_def)
    show "rp_internal_parser ?p2 = Grddl_parser ?c'" by simp
    show "visited_uris (rp_context ?c') = 0" by simp
    show "sequences ?heap3 0 = Some [''http://ex/doc'', ''http://ex/p1'']" by simp
    show "''http://ex/p2'' \<notin> set [''http://ex/doc'', ''http://ex/p1'']" by simp
    show "two_profiles_web ''http://ex/p2'' = Some plain_document"
      by (simp add: two_profiles_web_def)
  qed
  have loop: "grddl_profiles_loop ?run (?p1, ?heap1) [''http://ex/p1'', ''http://ex/p2''] 0 =
      Some (Inl Use_after_free)"
    using first second by simp
  have head: "grddl_head_profiles ?run absolute_reference ''http://ex/doc'' ?doc (?p1, ?heap1) =
      Some (Inl Use_after_free)"
    using loop two_profiles_match by (simp add: grddl_head_profiles_def)
  have "raptor_grddl_parse_chunk (Suc (Suc k)) absolute_reference two_profiles_web no_stylesheets
      (?p0, ?heap0) = Some (Inl Use_after_free)"
    using done0 root head
    by (simp add: two_profiles_document_def grddl_parse_document_def
        del: raptor_grddl_parse_chunk.simps(2) add: raptor_grddl_parse_chunk.simps(2) [of "Suc k"])
  then show ?thesis
    by (simp add: raptor_grddl_parse_def raptor_new_parser_grddl_def case_prod_beta
        del: raptor_grddl_parse_chunk.simps)
qed

end
